theory Spec2Isabelle
  imports Main
begin

section \<open>JavaScript values\<close>

text \<open>
  A thrown JavaScript \<open>Error\<close> is a value carrying its message. Every function of the
  source that can throw (or whose promise can reject) returns \<open>error + 'a\<close>, together
  with the state it leaves behind: nothing rolls a write back when a later step throws.
\<close>

datatype error = Error string

text \<open>
  What \<open>response.json()\<close> can yield. A number is kept as the text JavaScript prints for
  it, since the source only tests values for keys and truthiness or concatenates them.
\<close>

datatype json =
    JNull
  | JBool bool
  | JNum string
  | JStr string
  | JArr "json list"
  | JObj "(string \<times> json) list"

text \<open>Truthiness of an optional string: \<open>undefined\<close> and the empty string are falsy.\<close>

fun truthy :: "string option \<Rightarrow> bool" where
  "truthy None = False"
| "truthy (Some s) = (s \<noteq> [])"

text \<open>\<open>a || b\<close> on optional strings.\<close>

definition js_or :: "string option \<Rightarrow> string option \<Rightarrow> string option" where
  "js_or a b = (if truthy a then a else b)"

text \<open>Truthiness of a JSON value.\<close>

fun json_truthy :: "json \<Rightarrow> bool" where
  "json_truthy JNull = False"
| "json_truthy (JBool b) = b"
| "json_truthy (JNum n) = (n \<notin> {''0'', ''-0'', ''NaN''})"
| "json_truthy (JStr s) = (s \<noteq> [])"
| "json_truthy (JArr xs) = True"
| "json_truthy (JObj kvs) = True"

text \<open>\<open>String.prototype.split(c)\<close> for a one-character separator: \<open>''.split(',')\<close> is \<open>['']\<close>.\<close>

fun split_on :: "char \<Rightarrow> string \<Rightarrow> string list" where
  "split_on c [] = [[]]"
| "split_on c (x # xs) =
     (if x = c then [] # split_on c xs
      else (case split_on c xs of
              [] \<Rightarrow> [[x]]
            | w # ws \<Rightarrow> (x # w) # ws))"

text \<open>\<open>Array.prototype.join(c)\<close> on an array of strings.\<close>

fun join_with :: "char \<Rightarrow> string list \<Rightarrow> string" where
  "join_with c [] = []"
| "join_with c [r] = r"
| "join_with c (r # rs) = r @ c # join_with c rs"

text \<open>
  \<open>'' + v\<close>: the string JavaScript concatenates for a JSON value. Inside an array,
  \<open>null\<close> prints as the empty string.
\<close>

fun js_string :: "json \<Rightarrow> string" where
  "js_string JNull = ''null''"
| "js_string (JBool b) = (if b then ''true'' else ''false'')"
| "js_string (JNum n) = n"
| "js_string (JStr s) = s"
| "js_string (JArr xs) =
     join_with CHR '','' (map (\<lambda>x. if x = JNull then [] else js_string x) xs)"
| "js_string (JObj kvs) = ''[object Object]''"

text \<open>\<open>String.prototype.toUpperCase\<close> on ASCII text (provider names are ASCII).\<close>

definition toUpperCase :: "string \<Rightarrow> string" where
  "toUpperCase s =
     map (\<lambda>c. case map_of (zip ''abcdefghijklmnopqrstuvwxyz''
                                  ''ABCDEFGHIJKLMNOPQRSTUVWXYZ'') c of
                 Some C \<Rightarrow> C
               | None \<Rightarrow> c) s"

text \<open>\<open>[...new Set(xs)]\<close>: duplicates removed, the first occurrence kept.\<close>

definition dedup :: "'a list \<Rightarrow> 'a list" where
  "dedup xs = rev (remdups (rev xs))"

section \<open>Data model\<close>

text \<open>\<open>NormalisedProfile\<close>: every field is optional (\<open>Partial\<close>).\<close>

record NormalisedProfile =
  p_id :: "string option"
  p_displayName :: "string option"
  p_avatarUrl :: "string option"
  p_email :: "string option"
  p_locale :: "string option"
  p_emailVerified :: "bool option"

text \<open>
  \<open>options.allowedRoles\<close> is declared \<open>string[]\<close>, but the source also handles a value that
  arrives as a plain string.
\<close>

datatype roles_option = RolesArray "string list" | RolesString string

text \<open>
  \<open>Partial<UserRegistrationOptions>\<close>. The source reads every field through \<open>options?.f\<close>, so
  an absent \<open>options\<close> is the record with every field \<open>None\<close>.
\<close>

record UserRegistrationOptions =
  o_locale :: "string option"
  o_displayName :: "string option"
  o_allowedRoles :: "roles_option option"
  o_defaultRole :: "string option"
  o_metadata :: "(string \<times> json) list option"

definition no_options :: UserRegistrationOptions where
  "no_options = \<lparr> o_locale = None, o_displayName = None, o_allowedRoles = None,
                  o_defaultRole = None, o_metadata = None \<rparr>"

text \<open>\<open>InsertUserMutationVariables['user']\<close>, as far as \<open>transformOauthProfile\<close> fills it.\<close>

record user_input =
  ui_passwordHash :: "string option"
  ui_metadata :: "(string \<times> json) list"
  ui_email :: "string option"
  ui_emailVerified :: bool
  ui_defaultRole :: string
  ui_roles :: "string list"
  ui_locale :: "string option"
  ui_displayName :: "string option"
  ui_avatarUrl :: string

text \<open>A row of the users table, with the transient WebAuthn challenge.\<close>

record user =
  u_id :: string
  u_email :: "string option"
  u_displayName :: "string option"
  u_avatarUrl :: string
  u_locale :: "string option"
  u_defaultRole :: string
  u_roles :: "string list"
  u_metadata :: "(string \<times> json) list"
  u_emailVerified :: bool
  u_passwordHash :: "string option"
  u_currentChallenge :: "string option"

text \<open>A row of the user-providers table: the link of one provider identity to one user.\<close>

record user_provider =
  up_id :: string
  up_userId :: string
  up_providerId :: string
  up_providerUserId :: string
  up_accessToken :: "string option"
  up_refreshToken :: "string option"

type_synonym bytes = "nat list"

text \<open>A row of the authenticators table (\<open>AuthUserAuthenticators_Insert_Input\<close> plus its id).\<close>

record authenticator =
  a_id :: string
  a_userId :: string
  a_credentialId :: string
  a_credentialPublicKey :: string
  a_counter :: nat
  a_nickname :: "string option"

text \<open>The calls the source makes on the store (\<open>gqlSdk\<close> and the helpers built on it).\<close>

datatype store_op =
    OpAuthUserProviders
  | OpUpdateAuthUserprovider
  | OpGetUserByEmail
  | OpInsertUserProviderToUser
  | OpInsertUser
  | OpGetNewRefreshToken
  | OpGetUserChallenge
  | OpAddUserAuthenticator
  | OpUpdateUser

text \<open>What a handler does that is visible from outside, in the order it does it.\<close>

datatype event =
    Db store_op
  | Fetch string
  | SessionSave string
  | SessionRead string
  | SessionDestroy string
  | ClearCookie string
  | ProfileNormalised string
  | ResRedirect

text \<open>The Grant response kept in the session, and the session itself (the flow state).\<close>

record GrantResponse =
  r_profile :: "json option"
  r_access_token :: "string option"
  r_refresh_token :: "string option"
  r_error :: "string option"

record grant_session =
  g_provider :: "string option"
  g_response :: "GrantResponse option"

record session =
  s_grant :: "grant_session option"
  s_options :: "UserRegistrationOptions option"
  s_redirectTo :: "string option"

definition empty_session :: session where
  "empty_session = \<lparr> s_grant = None, s_options = None, s_redirectTo = None \<rparr>"

text \<open>
  The state the handlers work on: the tables of the store, the session store keyed by session
  id, a counter for generated ids, and the trace of events so far.
\<close>

record store =
  users :: "user list"
  user_providers :: "user_provider list"
  authenticators :: "authenticator list"
  refresh_tokens :: "(string \<times> string) list"
  sessions :: "(string \<times> session) list"
  next_id :: nat
  trace :: "event list"

text \<open>One provider entry of the Grant configuration, and the \<open>defaults\<close> entry beside them.\<close>

datatype scope = ScopeArray "string list" | ScopeString string

record grant_entry =
  ge_client_id :: "string option"
  ge_client_secret :: "string option"
  ge_key :: "string option"
  ge_secret :: "string option"
  ge_scope :: "scope option"
  ge_origin :: "string option"
  ge_prefix :: "string option"
  ge_transport :: "string option"
  ge_response :: "string list option"

text \<open>An entry of \<open>PROVIDERS_CONFIG\<close>: its Grant settings and its profile normaliser.\<close>

record provider_config =
  pc_grant :: grant_entry
  pc_profile :: "GrantResponse \<Rightarrow> error + NormalisedProfile"

text \<open>The result of \<open>verifyRegistrationResponse\<close>.\<close>

record registration_info =
  ri_credentialPublicKey :: bytes
  ri_credentialID :: bytes
  ri_counter :: nat

record VerifiedRegistrationResponse =
  v_verified :: bool
  v_registrationInfo :: "registration_info option"

text \<open>A value of the parsed query string: a string, or something else (an array, an object).\<close>

datatype query_value = QString string | QOther

record callback_query =
  q_error :: "query_value option"
  q_error_description :: "query_value option"

record signin_query =
  q_redirectTo :: "query_value option"
  q_options :: UserRegistrationOptions

text \<open>
  What a handler answers. \<open>SendError code redirectTo flag\<close> is the call
  \<open>sendError(res, code, { redirectTo }, flag)\<close>; \<open>Redirect target details\<close> is
  \<open>res.redirect(generateRedirectUrl(target, details))\<close>; \<open>Rejected e\<close> is a handler whose
  promise rejects with \<open>e\<close>; \<open>IllTyped\<close> is an input outside the declared TypeScript type,
  which the model does not follow further.
\<close>

datatype response =
    SendJson json
  | SendText string
  | SendError string "string option" bool
  | Redirect string "(string \<times> string) list"
  | Rejected error
  | IllTyped

section \<open>The environment\<close>

text \<open>
  Everything the source uses that is defined in other modules is a parameter:
  the settings of \<open>ENV\<close>, the Joi validators, \<open>getGravatarUrl\<close>, \<open>PROVIDERS_CONFIG\<close>, the
  identity endpoint, the WebAuthn library and the encodings of a buffer.
  \<open>emailValidator\<close> stands for \<open>emailValidator.validateAsync\<close>: it rejects (\<open>Inl\<close>) or yields
  the validated value. \<open>localeValidator\<close> and \<open>redirectToRule\<close> stand for \<open>.validate\<close>:
  \<open>Inl\<close> is a result with \<open>error\<close> set, \<open>Inr v\<close> one with \<open>value = v\<close>.
  \<open>db_raises op\<close> is the message with which a call of \<open>op\<close> on the store rejects, if it
  does; \<open>db_no_row op\<close> says that an insert resolves without a row (\<open>null\<close>).
  \<open>newId\<close> and \<open>mintToken\<close> are the generators of row ids and of refresh tokens.
\<close>

record env =
  AUTH_LOCALE_DEFAULT :: "string option"
  AUTH_USER_DEFAULT_ALLOWED_ROLES :: "string list"
  AUTH_USER_DEFAULT_ROLE :: string
  AUTH_CLIENT_URL :: string
  AUTH_SERVER_URL :: string
  OAUTH_ROUTE :: string
  emailValidator :: "string option \<Rightarrow> error + string option"
  localeValidator :: "string option \<Rightarrow> error + string option"
  redirectToRule :: "query_value option \<Rightarrow> error + string option"
  getGravatarUrl :: "string option \<Rightarrow> string option"
  PROVIDERS_CONFIG :: "(string \<times> provider_config) list"
  castBooleanEnv :: "string \<Rightarrow> bool"
  castStringArrayEnv :: "string \<Rightarrow> string list"
  registrationOptionsValidator :: "signin_query \<Rightarrow> response option"
  providerMiddleware :: "string \<Rightarrow> signin_query \<Rightarrow> response option"
  fetch_userinfo :: "string \<Rightarrow> error + json"
  verifyRegistrationResponse :: "json \<Rightarrow> string \<Rightarrow> error + VerifiedRegistrationResponse"
  base64url :: "bytes \<Rightarrow> string"
  hex :: "bytes \<Rightarrow> string"
  db_raises :: "store_op \<Rightarrow> string option"
  db_no_row :: "store_op \<Rightarrow> bool"
  newId :: "nat \<Rightarrow> string"
  mintToken :: "nat \<Rightarrow> string"

section \<open>Creating the user record from a profile\<close>

text \<open>
  The truthiness test \<open>if (options?.allowedRoles)\<close>: an array is always truthy (also the
  empty one), a string only when it is not empty.
\<close>

fun roles_truthy :: "roles_option option \<Rightarrow> bool" where
  "roles_truthy None = False"
| "roles_truthy (Some (RolesArray rs)) = True"
| "roles_truthy (Some (RolesString s)) = (s \<noteq> [])"

text \<open>The roles of the new user: the block of \<open>transformOauthProfile\<close> that sets \<open>allowedRoles\<close>.\<close>

definition allowedRoles_of :: "env \<Rightarrow> UserRegistrationOptions \<Rightarrow> string list" where
  "allowedRoles_of E options =
     (if roles_truthy (o_allowedRoles options) then
        (case o_allowedRoles options of
           Some (RolesArray rs) \<Rightarrow> rs
         | Some (RolesString s) \<Rightarrow> split_on CHR '','' s
         | None \<Rightarrow> AUTH_USER_DEFAULT_ALLOWED_ROLES E)
      else AUTH_USER_DEFAULT_ALLOWED_ROLES E)"

definition transformOauthProfile ::
  "env \<Rightarrow> NormalisedProfile \<Rightarrow> UserRegistrationOptions \<Rightarrow> error + user_input" where
  "transformOauthProfile E normalised options =
     (case emailValidator E (p_email normalised) of
        Inl e \<Rightarrow> Inl e
      | Inr email \<Rightarrow>
          (let avatarUrl =
                 (case js_or (js_or (p_avatarUrl normalised) (getGravatarUrl E email)) (Some [])
                  of Some a \<Rightarrow> a | None \<Rightarrow> []);
               locale =
                 (case localeValidator E (js_or (o_locale options) (p_locale normalised)) of
                    Inl _ \<Rightarrow> AUTH_LOCALE_DEFAULT E
                  | Inr v \<Rightarrow> v);
               displayName =
                 js_or (js_or (o_displayName options) (p_displayName normalised)) email;
               emailVerified = (p_emailVerified normalised = Some True);
               allowedRoles = allowedRoles_of E options
           in Inr \<lparr> ui_passwordHash = None,
                    ui_metadata = (case o_metadata options of Some m \<Rightarrow> m | None \<Rightarrow> []),
                    ui_email = email,
                    ui_emailVerified = emailVerified,
                    ui_defaultRole =
                      (case js_or (o_defaultRole options) (Some (AUTH_USER_DEFAULT_ROLE E))
                       of Some r \<Rightarrow> r | None \<Rightarrow> []),
                    ui_roles = allowedRoles,
                    ui_locale = locale,
                    ui_displayName = displayName,
                    ui_avatarUrl = avatarUrl \<rparr>))"

section \<open>The store\<close>

text \<open>
  Modelled from the spec: the query interface of the persistent store (\<open>gqlSdk\<close>,
  \<open>getUserByEmail\<close>, \<open>insertUser\<close>, \<open>getNewRefreshToken\<close>) is defined in other modules.
  The tables are lists of rows; a query filters them, an insert appends a row with a generated
  id, an update rewrites the rows with the given id. Every call is recorded in the trace and
  can fail as the environment says.
\<close>

definition db_call ::
  "env \<Rightarrow> store_op \<Rightarrow> (store \<Rightarrow> 'a \<times> store) \<Rightarrow> store \<Rightarrow> (error + 'a) \<times> store" where
  "db_call E op f st =
     (let st1 = st\<lparr>trace := trace st @ [Db op]\<rparr> in
      case db_raises E op of
        Some m \<Rightarrow> (Inl (Error m), st1)
      | None \<Rightarrow> (case f st1 of (r, st2) \<Rightarrow> (Inr r, st2)))"

text \<open>
  Modelled from the spec: the links for a provider and a provider user id (at most the first
  one), each with the user it references.
\<close>

definition authUserProviders ::
  "env \<Rightarrow> string \<Rightarrow> string \<Rightarrow> store
     \<Rightarrow> (error + (user_provider \<times> user option) list) \<times> store" where
  "authUserProviders E provider providerUserId =
     db_call E OpAuthUserProviders
       (\<lambda>s. (map (\<lambda>l. (l, find (\<lambda>u. u_id u = up_userId l) (users s)))
                 (take 1 (filter (\<lambda>l. up_providerId l = provider \<and>
                                        up_providerUserId l = providerUserId)
                                 (user_providers s))), s))"

text \<open>Modelled from the spec: the stored tokens of the link with this id are replaced.\<close>

definition updateAuthUserprovider ::
  "env \<Rightarrow> string \<Rightarrow> string option \<Rightarrow> string option \<Rightarrow> store \<Rightarrow> (error + unit) \<times> store" where
  "updateAuthUserprovider E link_id accessToken refreshToken =
     db_call E OpUpdateAuthUserprovider
       (\<lambda>s. ((), s\<lparr>user_providers :=
                      map (\<lambda>l. if up_id l = link_id
                                then l\<lparr>up_accessToken := accessToken,
                                       up_refreshToken := refreshToken\<rparr>
                                else l)
                          (user_providers s)\<rparr>))"

text \<open>Modelled from the spec: the user with this email, if there is one.\<close>

definition getUserByEmail :: "env \<Rightarrow> string \<Rightarrow> store \<Rightarrow> (error + user option) \<times> store" where
  "getUserByEmail E email =
     db_call E OpGetUserByEmail (\<lambda>s. (find (\<lambda>u. u_email u = Some email) (users s), s))"

text \<open>Modelled from the spec: a new link row is appended; the inserted row is returned.\<close>

definition insertUserProviderToUser ::
  "env \<Rightarrow> string \<Rightarrow> string \<Rightarrow> string \<Rightarrow> string option \<Rightarrow> string option \<Rightarrow> store
     \<Rightarrow> (error + user_provider option) \<times> store" where
  "insertUserProviderToUser E userId providerId providerUserId accessToken refreshToken =
     db_call E OpInsertUserProviderToUser
       (\<lambda>s. if db_no_row E OpInsertUserProviderToUser then (None, s)
             else (let l = \<lparr> up_id = newId E (next_id s), up_userId = userId,
                               up_providerId = providerId,
                               up_providerUserId = providerUserId,
                               up_accessToken = accessToken,
                               up_refreshToken = refreshToken \<rparr>
                   in (Some l, s\<lparr>user_providers := user_providers s @ [l],
                                  next_id := Suc (next_id s)\<rparr>)))"

text \<open>
  Modelled from the spec: a new user row is appended together with its first link (the nested
  \<open>userProviders\<close> insert); the new user is returned.
\<close>

definition insertUser ::
  "env \<Rightarrow> user_input \<Rightarrow> string \<Rightarrow> string \<Rightarrow> string option \<Rightarrow> string option \<Rightarrow> store
     \<Rightarrow> (error + user option) \<times> store" where
  "insertUser E userInput providerId providerUserId accessToken refreshToken =
     db_call E OpInsertUser
       (\<lambda>s. if db_no_row E OpInsertUser then (None, s)
             else (let u = \<lparr> u_id = newId E (next_id s),
                               u_email = ui_email userInput,
                               u_displayName = ui_displayName userInput,
                               u_avatarUrl = ui_avatarUrl userInput,
                               u_locale = ui_locale userInput,
                               u_defaultRole = ui_defaultRole userInput,
                               u_roles = ui_roles userInput,
                               u_metadata = ui_metadata userInput,
                               u_emailVerified = ui_emailVerified userInput,
                               u_passwordHash = ui_passwordHash userInput,
                               u_currentChallenge = None \<rparr>;
                       l = \<lparr> up_id = newId E (Suc (next_id s)), up_userId = u_id u,
                               up_providerId = providerId,
                               up_providerUserId = providerUserId,
                               up_accessToken = accessToken,
                               up_refreshToken = refreshToken \<rparr>
                   in (Some u, s\<lparr>users := users s @ [u],
                                  user_providers := user_providers s @ [l],
                                  next_id := Suc (Suc (next_id s))\<rparr>)))"

text \<open>Modelled from the spec: token issuance mints a refresh token for the user and stores it.\<close>

definition getNewRefreshToken :: "env \<Rightarrow> string \<Rightarrow> store \<Rightarrow> (error + string) \<times> store" where
  "getNewRefreshToken E userId =
     db_call E OpGetNewRefreshToken
       (\<lambda>s. (let t = mintToken E (length (refresh_tokens s))
             in (t, s\<lparr>refresh_tokens := refresh_tokens s @ [(userId, t)]\<rparr>)))"

section \<open>Account resolution\<close>

text \<open>
  The last block of \<open>findOrCreateUser\<close> ("Otherwise create a new user"): the profile is
  transformed, which validates its email, and the user is inserted with its first link.
\<close>

definition create_new_user ::
  "env \<Rightarrow> string \<Rightarrow> string \<Rightarrow> NormalisedProfile \<Rightarrow> string option \<Rightarrow> string option
     \<Rightarrow> UserRegistrationOptions \<Rightarrow> store \<Rightarrow> (error + user option) \<times> store" where
  "create_new_user E provider providerUserId profile refreshToken accessToken options st =
     (case transformOauthProfile E profile options of
        Inl e \<Rightarrow> (Inl e, st)
      | Inr userInput \<Rightarrow>
          insertUser E userInput provider providerUserId accessToken refreshToken st)"

text \<open>
  \<open>findOrCreateUser\<close>. The result is the user the function returns; it is \<open>None\<close> when the
  link found has no user attached (the source returns \<open>authUserProvider.user\<close> as it is) or
  when the insert of the user resolves without a row.
\<close>

definition findOrCreateUser ::
  "env \<Rightarrow> string \<Rightarrow> NormalisedProfile \<Rightarrow> string option \<Rightarrow> string option
     \<Rightarrow> UserRegistrationOptions \<Rightarrow> store \<Rightarrow> (error + user option) \<times> store" where
  "findOrCreateUser E provider profile refreshToken accessToken options st =
     (if \<not> truthy (p_id profile)
      then (Inl (Error (''Missing id in profile for provider '' @ provider)), st)
      else
        (let providerUserId = (case p_id profile of Some i \<Rightarrow> i | None \<Rightarrow> []) in
         case authUserProviders E provider providerUserId st of
           (Inl e, st1) \<Rightarrow> (Inl e, st1)
         | (Inr ((authUserProvider, user) # _), st1) \<Rightarrow>
             (case updateAuthUserprovider E (up_id authUserProvider)
                     accessToken refreshToken st1 of
                (Inl e, st2) \<Rightarrow> (Inl e, st2)
              | (Inr _, st2) \<Rightarrow> (Inr user, st2))
         | (Inr [], st1) \<Rightarrow>
             (if truthy (p_email profile) then
                (case getUserByEmail E (case p_email profile of Some m \<Rightarrow> m | None \<Rightarrow> []) st1 of
                   (Inl e, st2) \<Rightarrow> (Inl e, st2)
                 | (Inr (Some user), st2) \<Rightarrow>
                     (case insertUserProviderToUser E (u_id user) provider providerUserId
                             accessToken refreshToken st2 of
                        (Inl e, st3) \<Rightarrow> (Inl e, st3)
                      | (Inr None, st3) \<Rightarrow>
                          (Inl (Error ''Could not add a provider to user''), st3)
                      | (Inr (Some _), st3) \<Rightarrow> (Inr (Some user), st3))
                 | (Inr None, st2) \<Rightarrow>
                     create_new_user E provider providerUserId profile
                       refreshToken accessToken options st2)
              else create_new_user E provider providerUserId profile
                     refreshToken accessToken options st1)))"

text \<open>\<open>createUser\<close>: resolution, then token issuance; the result is the new refresh token.\<close>

definition createUser ::
  "env \<Rightarrow> string \<Rightarrow> string option \<Rightarrow> string option \<Rightarrow> NormalisedProfile
     \<Rightarrow> UserRegistrationOptions \<Rightarrow> store \<Rightarrow> (error + string) \<times> store" where
  "createUser E provider refreshToken accessToken profile options st =
     (case findOrCreateUser E provider profile refreshToken accessToken options st of
        (Inl e, st1) \<Rightarrow> (Inl e, st1)
      | (Inr None, st1) \<Rightarrow> (Inl (Error ''Could not retrieve user''), st1)
      | (Inr (Some user), st1) \<Rightarrow> getNewRefreshToken E (u_id user) st1)"

section \<open>The native token exchange\<close>

text \<open>\<open>'k' in data\<close> for a value that passed \<open>typeof data === 'object' && data != null\<close>.\<close>

fun has_key :: "string \<Rightarrow> json \<Rightarrow> bool" where
  "has_key k (JObj kvs) = (k \<in> set (map fst kvs))"
| "has_key k _ = False"

definition isUserData :: "json \<Rightarrow> bool" where
  "isUserData data =
     (has_key ''sub'' data \<and> has_key ''name'' data \<and> has_key ''given_name'' data \<and>
      has_key ''family_name'' data \<and> has_key ''picture'' data \<and> has_key ''email'' data \<and>
      has_key ''email_verified'' data \<and> has_key ''locale'' data)"

definition isErrorResponse :: "json \<Rightarrow> bool" where
  "isErrorResponse data = (has_key ''error'' data \<and> has_key ''error_description'' data)"

text \<open>A field of an object that the interface \<open>UserData\<close> declares as a string, or as a boolean.\<close>

fun string_field :: "string \<Rightarrow> json \<Rightarrow> string option" where
  "string_field k (JObj kvs) = (case map_of kvs k of Some (JStr s) \<Rightarrow> Some s | _ \<Rightarrow> None)"
| "string_field k _ = None"

fun bool_field :: "string \<Rightarrow> json \<Rightarrow> bool option" where
  "bool_field k (JObj kvs) = (case map_of kvs k of Some (JBool b) \<Rightarrow> Some b | _ \<Rightarrow> None)"
| "bool_field k _ = None"

text \<open>
  \<open>normaliseProfile\<close> of the native flow. It is \<open>None\<close> when a field used does not have its
  declared type; the locale is cut to its first two characters.
\<close>

definition normaliseProfile_native :: "json \<Rightarrow> NormalisedProfile option" where
  "normaliseProfile_native data =
     (case (string_field ''sub'' data, string_field ''name'' data,
            string_field ''picture'' data, string_field ''email'' data,
            bool_field ''email_verified'' data, string_field ''locale'' data) of
        (Some sub, Some name, Some picture, Some email, Some email_verified, Some locale) \<Rightarrow>
          Some \<lparr> p_id = Some sub, p_displayName = Some name, p_avatarUrl = Some picture,
                 p_email = Some email, p_locale = Some (take 2 locale),
                 p_emailVerified = Some email_verified \<rparr>
      | _ \<Rightarrow> None)"

text \<open>
  \<open>signInWithGoogleAccessToken\<close> as in \<open>routes/oauth/native.ts\<close>. Everything thrown in the
  model is an \<open>Error\<close>, so the last lines of the \<open>catch\<close> block are not reached.
\<close>

definition signInWithGoogleAccessToken :: "env \<Rightarrow> string \<Rightarrow> store \<Rightarrow> response \<times> store" where
  "signInWithGoogleAccessToken E accessToken st =
     (let st0 = st\<lparr>trace := trace st @ [Fetch accessToken]\<rparr> in
      case fetch_userinfo E accessToken of
        Inl e \<Rightarrow> (Rejected e, st0)
      | Inr userData \<Rightarrow>
          if isErrorResponse userData then (SendJson userData, st0)
          else if \<not> isUserData userData
          then (SendText (''unknown format for google response: '' @ js_string userData), st0)
          else
            (case normaliseProfile_native userData of
               None \<Rightarrow> (IllTyped, st0)
             | Some profile \<Rightarrow>
                 (case createUser E ''google'' None (Some accessToken) profile no_options st0 of
                    (Inr refreshToken, st1) \<Rightarrow>
                      (SendJson (JObj [(''refreshToken'', JStr refreshToken)]), st1)
                  | (Inl (Error m), st1) \<Rightarrow> (SendText m, st1))))"

text \<open>
  The second copy of the handler in the repository: it differs in what it sends for an
  unknown format and for a caught error.
\<close>

definition signInWithGoogleAccessToken_2 :: "env \<Rightarrow> string \<Rightarrow> store \<Rightarrow> response \<times> store" where
  "signInWithGoogleAccessToken_2 E accessToken st =
     (let st0 = st\<lparr>trace := trace st @ [Fetch accessToken]\<rparr> in
      case fetch_userinfo E accessToken of
        Inl e \<Rightarrow> (Rejected e, st0)
      | Inr userDataOrError \<Rightarrow>
          if isErrorResponse userDataOrError then (SendJson userDataOrError, st0)
          else if \<not> isUserData userDataOrError
          then (SendJson (JObj [(''error'', JStr ''unknown format for google response!''),
                                (''data'', userDataOrError)]), st0)
          else
            (case normaliseProfile_native userDataOrError of
               None \<Rightarrow> (IllTyped, st0)
             | Some profile \<Rightarrow>
                 (case createUser E ''google'' None (Some accessToken) profile no_options st0 of
                    (Inr refreshToken, st1) \<Rightarrow>
                      (SendJson (JObj [(''refreshToken'', JStr refreshToken)]), st1)
                  | (Inl (Error m), st1) \<Rightarrow> (SendJson (JObj [(''error'', JStr m)]), st1))))"

section \<open>WebAuthn registration\<close>

text \<open>Modelled from the spec: the user row with this id, if there is one.\<close>

definition getUserChallenge :: "env \<Rightarrow> string \<Rightarrow> store \<Rightarrow> (error + user option) \<times> store" where
  "getUserChallenge E uid =
     db_call E OpGetUserChallenge (\<lambda>s. (find (\<lambda>u. u_id u = uid) (users s), s))"

text \<open>Modelled from the spec: a new authenticator row is appended and returned.\<close>

definition addUserAuthenticator ::
  "env \<Rightarrow> string \<Rightarrow> string \<Rightarrow> string \<Rightarrow> nat \<Rightarrow> string option \<Rightarrow> store
     \<Rightarrow> (error + authenticator option) \<times> store" where
  "addUserAuthenticator E userId credentialId credentialPublicKey counter nickname =
     db_call E OpAddUserAuthenticator
       (\<lambda>s. if db_no_row E OpAddUserAuthenticator then (None, s)
             else (let a = \<lparr> a_id = newId E (next_id s), a_userId = userId,
                               a_credentialId = credentialId,
                               a_credentialPublicKey = credentialPublicKey,
                               a_counter = counter, a_nickname = nickname \<rparr>
                   in (Some a, s\<lparr>authenticators := authenticators s @ [a],
                                  next_id := Suc (next_id s)\<rparr>)))"

text \<open>Modelled from the spec: the user rows with this id are rewritten by the given change.\<close>

definition updateUser :: "env \<Rightarrow> string \<Rightarrow> (user \<Rightarrow> user) \<Rightarrow> store \<Rightarrow> (error + unit) \<times> store" where
  "updateUser E uid change =
     db_call E OpUpdateUser
       (\<lambda>s. ((), s\<lparr>users := map (\<lambda>u. if u_id u = uid then change u else u) (users s)\<rparr>))"

definition verifyWebAuthnRegistration ::
  "env \<Rightarrow> string \<Rightarrow> json \<Rightarrow> string option \<Rightarrow> store \<Rightarrow> (error + unit) \<times> store" where
  "verifyWebAuthnRegistration E uid credential nickname st =
     (case getUserChallenge E uid st of
        (Inl e, st1) \<Rightarrow> (Inl e, st1)
      | (Inr None, st1) \<Rightarrow> (Inl (Error ''user-not-found''), st1)
      | (Inr (Some user), st1) \<Rightarrow>
          if \<not> truthy (u_currentChallenge user) then (Inl (Error ''invalid-request''), st1)
          else
            (case verifyRegistrationResponse E credential
                    (case u_currentChallenge user of Some c \<Rightarrow> c | None \<Rightarrow> []) of
               Inl _ \<Rightarrow> (Inl (Error ''invalid-webauthn-authenticator''), st1)
             | Inr verification \<Rightarrow>
                 if \<not> v_verified verification
                 then (Inl (Error ''invalid-webauthn-verification''), st1)
                 else
                   (case v_registrationInfo verification of
                      None \<Rightarrow> (Inl (Error ''invalid-webauthn-verification''), st1)
                    | Some info \<Rightarrow>
                        (case addUserAuthenticator E uid
                                (base64url E (ri_credentialID info))
                                (CHR 0x5C # CHR ''x'' # hex E (ri_credentialPublicKey info))
                                (ri_counter info) nickname st1 of
                           (Inl e, st2) \<Rightarrow> (Inl e, st2)
                         | (Inr inserted, st2) \<Rightarrow>
                             if \<not> truthy (map_option a_id inserted)
                             then (Inl (Error (''Something went wrong. Impossible to insert '' @
                                               ''new authenticator in the database.'')), st2)
                             else updateUser E uid (\<lambda>u. u\<lparr>u_currentChallenge := None\<rparr>) st2))))"

section \<open>The redirect flow\<close>

definition SESSION_NAME :: string where
  "SESSION_NAME = ''connect.sid''"

text \<open>\<open>obj[k] = v\<close> on an object kept as a list of its entries.\<close>

fun obj_set :: "'k \<Rightarrow> 'v \<Rightarrow> ('k \<times> 'v) list \<Rightarrow> ('k \<times> 'v) list" where
  "obj_set k v [] = [(k, v)]"
| "obj_set k v ((k', v') # kvs) =
     (if k' = k then (k, v) # kvs else (k', v') # obj_set k v kvs)"

text \<open>
  \<open>obj[k]\<close> on a plain object kept as a list of its entries: the object's own entry, or a
  member inherited from \<open>Object.prototype\<close>, or \<open>undefined\<close>. The inherited members are
  functions, but for \<open>__proto__\<close>, which is the prototype itself.
\<close>

definition object_prototype_keys :: "string list" where
  "object_prototype_keys =
     [''constructor'', ''__proto__'', ''toString'', ''toLocaleString'', ''valueOf'',
      ''hasOwnProperty'', ''isPrototypeOf'', ''propertyIsEnumerable'',
      ''__defineGetter__'', ''__defineSetter__'', ''__lookupGetter__'', ''__lookupSetter__'']"

datatype 'v property = Own 'v | Inherited | Missing

definition obj_get :: "(string \<times> 'v) list \<Rightarrow> string \<Rightarrow> 'v property" where
  "obj_get kvs k =
     (case map_of kvs k of
        Some v \<Rightarrow> Own v
      | None \<Rightarrow> if k \<in> set object_prototype_keys then Inherited else Missing)"

text \<open>The \<open>defaults\<close> entry with which \<open>createGrantConfig\<close> starts.\<close>

definition grant_defaults :: "env \<Rightarrow> grant_entry" where
  "grant_defaults E =
     \<lparr> ge_client_id = None, ge_client_secret = None, ge_key = None, ge_secret = None,
       ge_scope = Some (ScopeArray [''email'', ''profile'']),
       ge_origin = Some (AUTH_SERVER_URL E), ge_prefix = Some (OAUTH_ROUTE E),
       ge_transport = Some ''session'',
       ge_response = Some [''tokens'', ''email'', ''profile'', ''jwt''] \<rparr>"

text \<open>One step of the \<open>reduce\<close> in \<open>createGrantConfig\<close>.\<close>

definition grant_step :: "env \<Rightarrow> string \<Rightarrow> (string \<times> grant_entry) list \<Rightarrow> (string \<times> grant_entry) list" where
  "grant_step E provider aggr =
     (let providerEnvName =
            (if toUpperCase provider = ''WINDOWSLIVE'' then ''WINDOWS_LIVE''
             else toUpperCase provider)
      in if castBooleanEnv E (''AUTH_PROVIDER_'' @ providerEnvName @ ''_ENABLED'') then
           (case map_of (PROVIDERS_CONFIG E) provider of
              None \<Rightarrow> aggr
            | Some cfg \<Rightarrow>
                (let grant = pc_grant cfg;
                     customScope =
                       castStringArrayEnv E (''AUTH_PROVIDER_'' @ providerEnvName @ ''_SCOPE'');
                     initialScope =
                       (case ge_scope grant of
                          Some (ScopeArray xs) \<Rightarrow> xs
                        | Some (ScopeString x) \<Rightarrow> [x]
                        | None \<Rightarrow> [])
                 in obj_set provider
                      (if customScope \<noteq> []
                       then grant\<lparr>ge_scope := Some (ScopeArray (dedup (initialScope @ customScope)))\<rparr>
                       else grant)
                      aggr))
         else aggr)"

definition createGrantConfig :: "env \<Rightarrow> (string \<times> grant_entry) list" where
  "createGrantConfig E =
     foldl (\<lambda>aggr provider. grant_step E provider aggr)
       [(''defaults'', grant_defaults E)]
       (remdups (map fst (PROVIDERS_CONFIG E)))"

text \<open>
  The middleware that validates the provider configuration. \<open>None\<close> is \<open>next()\<close>; otherwise it
  is the answer sent. \<open>grantConfig[provider]\<close> is a lookup in a plain object: a member inherited
  from \<open>Object.prototype\<close> is truthy and has none of \<open>client_id\<close>, \<open>client_secret\<close>, \<open>key\<close>
  and \<open>secret\<close>, so for it the first test does not fire and the second does.
\<close>

definition validate_provider ::
  "(string \<times> grant_entry) list \<Rightarrow> string \<Rightarrow> string option \<Rightarrow> response option" where
  "validate_provider grantConfig provider redirectTo =
     (case obj_get grantConfig provider of
        Missing \<Rightarrow> Some (SendError ''disabled-endpoint'' redirectTo True)
      | Inherited \<Rightarrow> Some (SendError ''invalid-oauth-configuration'' redirectTo True)
      | Own providerConfig \<Rightarrow>
          if \<not> (truthy (ge_client_id providerConfig) \<and> truthy (ge_client_secret providerConfig))
             \<and> \<not> (truthy (ge_key providerConfig) \<and> truthy (ge_secret providerConfig))
          then Some (SendError ''invalid-oauth-configuration'' redirectTo True)
          else None)"

text \<open>
  How a request to \<open>/signin/provider/:provider\<close> ends: with an answer of one of the
  middlewares, or handed to the Grant middleware, which redirects to the provider.
\<close>

datatype signin_result = Answered response | HandedToGrant

text \<open>
  The chain of middlewares on \<open>/signin/provider/:provider\<close>, in the order they are registered:
  the redirect url, the provider validation, the registration options, the provider's own
  middleware, the session, Grant.
\<close>

definition signin_route ::
  "env \<Rightarrow> string \<Rightarrow> string \<Rightarrow> signin_query \<Rightarrow> store \<Rightarrow> signin_result \<times> store" where
  "signin_route E sid provider query st =
     (let redirectTo =
            (case redirectToRule E (q_redirectTo query) of Inl _ \<Rightarrow> None | Inr v \<Rightarrow> v)
      in case validate_provider (createGrantConfig E) provider redirectTo of
           Some answer \<Rightarrow> (Answered answer, st)
         | None \<Rightarrow>
             (case registrationOptionsValidator E query of
                Some answer \<Rightarrow> (Answered answer, st)
              | None \<Rightarrow>
                  (case providerMiddleware E provider query of
                     Some answer \<Rightarrow> (Answered answer, st)
                   | None \<Rightarrow>
                       (let session =
                              (case map_of (sessions st) sid of
                                 Some s \<Rightarrow> s | None \<Rightarrow> empty_session)
                        in (HandedToGrant,
                            st\<lparr>sessions :=
                                  obj_set sid
                                    (session\<lparr>s_options := Some (q_options query),
                                             s_redirectTo := redirectTo\<rparr>)
                                    (sessions st),
                                trace := trace st @ [SessionSave sid]\<rparr>)))))"

text \<open>\<open>sendErrorFromQuery\<close>, with the variables of the callback it closes over as arguments.\<close>

definition sendErrorFromQuery ::
  "callback_query \<Rightarrow> string option \<Rightarrow> string \<Rightarrow> string option \<Rightarrow> string option \<Rightarrow> response" where
  "sendErrorFromQuery query provider redirectTo code fallbackMessage =
     (let error =
            (if truthy code then (case code of Some c \<Rightarrow> c | None \<Rightarrow> [])
             else (case q_error query of
                     Some (QString e) \<Rightarrow> e
                   | _ \<Rightarrow> ''invalid-request''));
          fallback =
            (case js_or fallbackMessage (Some ''Unknown error'') of
               Some m \<Rightarrow> m | None \<Rightarrow> []);
          errorDescription =
            (case q_error_description query of
               Some (QString d) \<Rightarrow> d
             | _ \<Rightarrow>
                 (case q_error query of
                    Some (QString e) \<Rightarrow> if e \<noteq> error then e else fallback
                  | _ \<Rightarrow> fallback));
          details =
            [(''error'', error), (''errorDescription'', errorDescription)] @
            (if truthy provider
             then [(''provider'', (case provider of Some p \<Rightarrow> p | None \<Rightarrow> []))]
             else [])
      in Redirect redirectTo details)"

text \<open>
  \<open>normaliseProfile\<close>: the normaliser of the provider's entry in \<open>PROVIDERS_CONFIG\<close>. For a
  name without an entry the call throws a \<open>TypeError\<close>: the entry is \<open>undefined\<close>, or it is an
  inherited member, which has no \<open>profile\<close> function.
\<close>

definition normaliseProfile :: "env \<Rightarrow> string \<Rightarrow> GrantResponse \<Rightarrow> error + NormalisedProfile" where
  "normaliseProfile E provider data =
     (case obj_get (PROVIDERS_CONFIG E) provider of
        Missing \<Rightarrow> Inl (Error ''TypeError: Cannot read properties of undefined'')
      | Inherited \<Rightarrow> Inl (Error ''TypeError: PROVIDERS_CONFIG[provider].profile is not a function'')
      | Own cfg \<Rightarrow> pc_profile cfg data)"

text \<open>Modelled from the spec: destroying a session removes the entry of its id.\<close>

definition session_destroy :: "string \<Rightarrow> (string \<times> session) list \<Rightarrow> (string \<times> session) list" where
  "session_destroy sid ss = filter (\<lambda>(k, _). k \<noteq> sid) ss"

text \<open>
  The handler of \<open>/signin/provider/:provider/callback\<close>. A session id without an entry has the
  empty session (the session middleware starts a new one).
\<close>

definition oauth_callback ::
  "env \<Rightarrow> string \<Rightarrow> callback_query \<Rightarrow> store \<Rightarrow> response \<times> store" where
  "oauth_callback E sid query st =
     (let session = (case map_of (sessions st) sid of Some s \<Rightarrow> s | None \<Rightarrow> empty_session);
          grant = s_grant session;
          options = s_options session;
          redirectTo = (case s_redirectTo session of Some r \<Rightarrow> r | None \<Rightarrow> AUTH_CLIENT_URL E);
          st1 = st\<lparr>trace := trace st @ [SessionRead sid]\<rparr>;
          st2 = st1\<lparr>sessions := session_destroy sid (sessions st1),
                    trace := trace st1 @ [SessionDestroy sid, ClearCookie SESSION_NAME]\<rparr>;
          response = (case grant of Some g \<Rightarrow> g_response g | None \<Rightarrow> None);
          provider = (case grant of Some g \<Rightarrow> g_provider g | None \<Rightarrow> None);
          answered = (\<lambda>s. s\<lparr>trace := trace s @ [ResRedirect]\<rparr>)
      in if \<not> truthy provider
         then (sendErrorFromQuery query provider redirectTo (Some ''internal-error'') None,
               answered st2)
         else
           (case response of
              None \<Rightarrow>
                (sendErrorFromQuery query provider redirectTo (Some ''internal-error'') None,
                 answered st2)
            | Some resp \<Rightarrow>
                if \<not> (case r_profile resp of Some p \<Rightarrow> json_truthy p | None \<Rightarrow> False)
                then (sendErrorFromQuery query provider redirectTo
                        (Some ''internal-error'') (r_error resp), answered st2)
                else
                  (let prov = (case provider of Some p \<Rightarrow> p | None \<Rightarrow> []);
                       st3 = st2\<lparr>trace := trace st2 @ [ProfileNormalised prov]\<rparr>
                   in case normaliseProfile E prov resp of
                        Inl e \<Rightarrow> (Rejected e, st3)
                      | Inr profile \<Rightarrow>
                          if \<not> truthy (r_access_token resp) \<or> \<not> truthy (r_refresh_token resp)
                          then (sendErrorFromQuery query provider redirectTo None
                                  (Some ''Grant did not get an accessToken and refreshToken''),
                                answered st3)
                          else
                            (case createUser E prov (r_refresh_token resp) (r_access_token resp)
                                    profile
                                    (case options of Some opts \<Rightarrow> opts | None \<Rightarrow> no_options) st3 of
                               (Inr newRefreshToken, st4) \<Rightarrow>
                                 (Redirect redirectTo [(''refreshToken'', newRefreshToken)],
                                  answered st4)
                             | (Inl (Error m), st4) \<Rightarrow>
                                 (sendErrorFromQuery query provider redirectTo None (Some m),
                                  answered st4)))))"

section \<open>Sample values\<close>

text \<open>
  A sample environment for evaluation. Its email validator accepts an absent email and any
  string holding an \<open>@\<close>, and rejects every other string (each string that Joi's email rule
  accepts holds an \<open>@\<close>); its locale validator accepts two-letter strings. The providers
  \<open>github\<close> and \<open>google\<close> are enabled, \<open>google\<close> without a client secret; \<open>twitter\<close> is
  configured but not enabled. No call on the store fails.
\<close>

definition sample_emailValidator :: "string option \<Rightarrow> error + string option" where
  "sample_emailValidator e =
     (case e of
        None \<Rightarrow> Inr None
      | Some s \<Rightarrow> if CHR ''@'' \<in> set s then Inr (Some s)
                  else Inl (Error ''value must be a valid email''))"

definition sample_localeValidator :: "string option \<Rightarrow> error + string option" where
  "sample_localeValidator l =
     (case l of
        None \<Rightarrow> Inr (Some ''en'')
      | Some s \<Rightarrow> if length s = 2 then Inr (Some s)
                  else Inl (Error ''value length must be 2 characters long''))"

definition sample_profile :: NormalisedProfile where
  "sample_profile = \<lparr> p_id = Some ''42'', p_displayName = None, p_avatarUrl = None,
                       p_email = Some ''a@example.com'', p_locale = None,
                       p_emailVerified = None \<rparr>"

definition sample_grant :: "string option \<Rightarrow> string option \<Rightarrow> grant_entry" where
  "sample_grant cid csecret =
     \<lparr> ge_client_id = cid, ge_client_secret = csecret, ge_key = None, ge_secret = None,
       ge_scope = None, ge_origin = None, ge_prefix = None, ge_transport = None,
       ge_response = None \<rparr>"

definition sample_providers :: "(string \<times> provider_config) list" where
  "sample_providers =
     [(''github'', \<lparr> pc_grant = sample_grant (Some ''gh-id'') (Some ''gh-secret''),
                     pc_profile = (\<lambda>_. Inr sample_profile) \<rparr>),
      (''google'', \<lparr> pc_grant = sample_grant (Some ''go-id'') None,
                     pc_profile = (\<lambda>_. Inr sample_profile) \<rparr>),
      (''twitter'', \<lparr> pc_grant = sample_grant (Some ''tw-id'') (Some ''tw-secret''),
                      pc_profile = (\<lambda>_. Inr sample_profile) \<rparr>)]"

definition sample_userinfo :: json where
  "sample_userinfo =
     JObj [(''sub'', JStr ''42''), (''name'', JStr ''Ann''), (''given_name'', JStr ''Ann''),
           (''family_name'', JStr ''Lee''), (''picture'', JStr []),
           (''email'', JStr ''a@example.com''), (''email_verified'', JBool True),
           (''locale'', JStr ''en-GB'')]"

definition sample_fetch :: "string \<Rightarrow> error + json" where
  "sample_fetch accessToken =
     (if accessToken = ''abc'' then Inr (JObj [(''error'', JStr ''invalid_token'')])
      else if accessToken = ''good'' then Inr sample_userinfo
      else Inr (JObj [(''error'', JStr ''invalid_request''),
                      (''error_description'', JStr ''Invalid Credentials'')]))"

definition sample_verify :: "json \<Rightarrow> string \<Rightarrow> error + VerifiedRegistrationResponse" where
  "sample_verify credential expectedChallenge =
     (if credential = JStr ''signed:'' then Inl (Error ''malformed credential'')
      else if credential = JStr (''signed:'' @ expectedChallenge)
      then Inr \<lparr> v_verified = True,
                 v_registrationInfo =
                   Some \<lparr> ri_credentialPublicKey = [1, 2], ri_credentialID = [7],
                          ri_counter = 0 \<rparr> \<rparr>
      else Inr \<lparr> v_verified = False, v_registrationInfo = None \<rparr>)"

definition sample_env :: env where
  "sample_env =
     \<lparr> AUTH_LOCALE_DEFAULT = Some ''en'',
       AUTH_USER_DEFAULT_ALLOWED_ROLES = [''user'', ''me''],
       AUTH_USER_DEFAULT_ROLE = ''user'',
       AUTH_CLIENT_URL = ''http://localhost:3000'',
       AUTH_SERVER_URL = ''http://localhost:4000'',
       OAUTH_ROUTE = ''/signin/provider'',
       emailValidator = sample_emailValidator,
       localeValidator = sample_localeValidator,
       redirectToRule =
         (\<lambda>q. case q of None \<Rightarrow> Inr (Some ''http://localhost:3000'')
                        | Some (QString u) \<Rightarrow> Inr (Some u)
                        | Some QOther \<Rightarrow> Inl (Error ''redirectTo must be a string'')),
       getGravatarUrl = (\<lambda>_. None),
       PROVIDERS_CONFIG = sample_providers,
       castBooleanEnv =
         (\<lambda>k. k = ''AUTH_PROVIDER_GITHUB_ENABLED'' \<or> k = ''AUTH_PROVIDER_GOOGLE_ENABLED''),
       castStringArrayEnv = (\<lambda>_. []),
       registrationOptionsValidator = (\<lambda>_. None),
       providerMiddleware = (\<lambda>_ _. None),
       fetch_userinfo = sample_fetch,
       verifyRegistrationResponse = sample_verify,
       base64url = (\<lambda>_. ''Bw''),
       hex = (\<lambda>_. ''0102''),
       db_raises = (\<lambda>_. None),
       db_no_row = (\<lambda>_. False),
       newId = (\<lambda>n. ''id'' @ replicate n CHR ''+''),
       mintToken = (\<lambda>n. ''token'' @ replicate n CHR ''+'') \<rparr>"

definition sample_user :: user where
  "sample_user =
     \<lparr> u_id = ''u1'', u_email = Some ''a@example.com'', u_displayName = Some ''Ann'',
       u_avatarUrl = [], u_locale = Some ''en'', u_defaultRole = ''user'',
       u_roles = [''user'', ''me''], u_metadata = [], u_emailVerified = True,
       u_passwordHash = None, u_currentChallenge = Some ''c1'' \<rparr>"

definition sample_link :: user_provider where
  "sample_link =
     \<lparr> up_id = ''l1'', up_userId = ''u1'', up_providerId = ''github'',
       up_providerUserId = ''42'', up_accessToken = Some ''old-access'',
       up_refreshToken = Some ''old-refresh'' \<rparr>"

definition empty_store :: store where
  "empty_store = \<lparr> users = [], user_providers = [], authenticators = [],
                    refresh_tokens = [], sessions = [], next_id = 0, trace = [] \<rparr>"

section \<open>Notions used to state the properties\<close>

text \<open>The store is reliable when no call on it fails and every insert yields its row.\<close>

definition store_reliable :: "env \<Rightarrow> bool" where
  "store_reliable E = ((\<forall>op. db_raises E op = None) \<and> (\<forall>op. \<not> db_no_row E op))"

text \<open>The links of a provider identity, in table order.\<close>

definition matching_links :: "string \<Rightarrow> string \<Rightarrow> store \<Rightarrow> user_provider list" where
  "matching_links provider providerUserId st =
     filter (\<lambda>l. up_providerId l = provider \<and> up_providerUserId l = providerUserId)
       (user_providers st)"

text \<open>The user a present (truthy) email belongs to.\<close>

definition user_by_email :: "string option \<Rightarrow> store \<Rightarrow> user option" where
  "user_by_email email st =
     (if truthy email then find (\<lambda>u. u_email u = email) (users st) else None)"

text \<open>The link row and the user row that an insert writes, with the id generated at \<open>n\<close>.\<close>

definition new_link ::
  "env \<Rightarrow> nat \<Rightarrow> string \<Rightarrow> string \<Rightarrow> string \<Rightarrow> string option \<Rightarrow> string option
     \<Rightarrow> user_provider" where
  "new_link E n userId provider pid at rt =
     \<lparr> up_id = newId E n, up_userId = userId, up_providerId = provider,
       up_providerUserId = pid, up_accessToken = at, up_refreshToken = rt \<rparr>"

definition new_user :: "env \<Rightarrow> nat \<Rightarrow> user_input \<Rightarrow> user" where
  "new_user E n ui =
     \<lparr> u_id = newId E n, u_email = ui_email ui, u_displayName = ui_displayName ui,
       u_avatarUrl = ui_avatarUrl ui, u_locale = ui_locale ui,
       u_defaultRole = ui_defaultRole ui, u_roles = ui_roles ui,
       u_metadata = ui_metadata ui, u_emailVerified = ui_emailVerified ui,
       u_passwordHash = ui_passwordHash ui, u_currentChallenge = None \<rparr>"

text \<open>
  The queries that precede the creation of a user: the link lookup, and the email lookup when
  the profile has an email.
\<close>

definition email_lookup_trace :: "NormalisedProfile \<Rightarrow> event list" where
  "email_lookup_trace profile =
     Db OpAuthUserProviders # (if truthy (p_email profile) then [Db OpGetUserByEmail] else [])"

text \<open>The events a handler added to the trace.\<close>

definition new_events :: "store \<Rightarrow> store \<Rightarrow> event list" where
  "new_events st st' = drop (length (trace st)) (trace st')"

text \<open>
  Sample flow state: a session of the provider \<open>github\<close> holding Grant's response, with and
  without tokens; and an environment whose \<open>github\<close> normaliser yields a profile without id.
\<close>

definition sample_grant_response :: GrantResponse where
  "sample_grant_response =
     \<lparr> r_profile = Some (JObj [(''id'', JNum ''42'')]), r_access_token = Some ''at'',
       r_refresh_token = Some ''rt'', r_error = None \<rparr>"

definition sample_session :: "GrantResponse \<Rightarrow> session" where
  "sample_session resp =
     \<lparr> s_grant = Some \<lparr> g_provider = Some ''github'', g_response = Some resp \<rparr>,
       s_options = None, s_redirectTo = Some ''http://app.example/cb'' \<rparr>"

definition no_query :: callback_query where
  "no_query = \<lparr> q_error = None, q_error_description = None \<rparr>"

definition no_id_env :: env where
  "no_id_env =
     sample_env\<lparr>PROVIDERS_CONFIG :=
       [(''github'', \<lparr> pc_grant = sample_grant (Some ''gh-id'') (Some ''gh-secret''),
                       pc_profile = (\<lambda>_. Inr (sample_profile\<lparr>p_id := None\<rparr>)) \<rparr>)]\<rparr>"

text \<open>A sample environment in which the insert of a user is rejected by the store.\<close>

definition failing_env :: env where
  "failing_env =
     sample_env\<lparr>db_raises :=
       (\<lambda>op. if op = OpInsertUser then Some ''connection refused'' else None)\<rparr>"

text \<open>
  A provider is enabled when its flag in the environment is set; its credentials are complete
  when it has a client id and secret, or a key and secret.
\<close>

definition provider_enabled :: "env \<Rightarrow> string \<Rightarrow> bool" where
  "provider_enabled E provider =
     castBooleanEnv E
       (''AUTH_PROVIDER_'' @
        (if toUpperCase provider = ''WINDOWSLIVE'' then ''WINDOWS_LIVE''
         else toUpperCase provider) @ ''_ENABLED'')"

definition complete_credentials :: "grant_entry \<Rightarrow> bool" where
  "complete_credentials g =
     ((truthy (ge_client_id g) \<and> truthy (ge_client_secret g)) \<or>
      (truthy (ge_key g) \<and> truthy (ge_secret g)))"

text \<open>The redirect url that the first middleware leaves in \<open>res.locals\<close>.\<close>

definition locals_redirectTo :: "env \<Rightarrow> signin_query \<Rightarrow> string option" where
  "locals_redirectTo E query =
     (case redirectToRule E (q_redirectTo query) of Inl _ \<Rightarrow> None | Inr v \<Rightarrow> v)"

text \<open>The entry that \<open>createGrantConfig\<close> stores for an enabled provider.\<close>

definition stored_grant :: "env \<Rightarrow> string \<Rightarrow> provider_config \<Rightarrow> grant_entry" where
  "stored_grant E provider cfg =
     (let customScope =
            castStringArrayEnv E
              (''AUTH_PROVIDER_'' @
               (if toUpperCase provider = ''WINDOWSLIVE'' then ''WINDOWS_LIVE''
                else toUpperCase provider) @ ''_SCOPE'')
      in if customScope \<noteq> []
         then (pc_grant cfg)\<lparr>ge_scope :=
                Some (ScopeArray (dedup ((case ge_scope (pc_grant cfg) of
                                            Some (ScopeArray xs) \<Rightarrow> xs
                                          | Some (ScopeString x) \<Rightarrow> [x]
                                          | None \<Rightarrow> []) @ customScope)))\<rparr>
         else pc_grant cfg)"

text \<open>The events that touch the session or its cookie.\<close>

fun is_session_event :: "event \<Rightarrow> bool" where
  "is_session_event (SessionSave sid) = True"
| "is_session_event (SessionRead sid) = True"
| "is_session_event (SessionDestroy sid) = True"
| "is_session_event (ClearCookie name) = True"
| "is_session_event _ = False"

text \<open>
  A step from \<open>st\<close> to \<open>st'\<close> is session free when it leaves the session store alone and adds
  no session event to the trace.
\<close>

definition session_free :: "store \<Rightarrow> store \<Rightarrow> bool" where
  "session_free st st' =
     (sessions st' = sessions st \<and>
      take (length (trace st)) (trace st') = trace st \<and>
      list_all (\<lambda>e. \<not> is_session_event e) (new_events st st'))"

text \<open>The redirect url of the callback: the one kept in the session, else the client url.\<close>

definition callback_redirectTo :: "env \<Rightarrow> string \<Rightarrow> store \<Rightarrow> string" where
  "callback_redirectTo E sid st =
     (case map_of (sessions st) sid of
        None \<Rightarrow> AUTH_CLIENT_URL E
      | Some s \<Rightarrow> (case s_redirectTo s of Some r \<Rightarrow> r | None \<Rightarrow> AUTH_CLIENT_URL E))"

text \<open>A sample environment whose \<open>github\<close> normaliser throws.\<close>

definition throwing_env :: env where
  "throwing_env =
     sample_env\<lparr>PROVIDERS_CONFIG :=
       [(''github'', \<lparr> pc_grant = sample_grant (Some ''gh-id'') (Some ''gh-secret''),
                       pc_profile = (\<lambda>_. Inl (Error ''no email in the profile'')) \<rparr>)]\<rparr>"

section \<open>Roles of a new user\<close>

lemma split_on_not_Nil: "split_on c s \<noteq> []"
  by (induction s) (auto split: list.splits)

lemma split_on_no_sep: "c \<notin> set r \<Longrightarrow> split_on c r = [r]"
  by (induction r) auto

lemma split_on_append_sep:
  "c \<notin> set r \<Longrightarrow> split_on c (r @ c # s) = r # split_on c s"
  by (induction r) auto

lemma split_on_join_with:
  "rs \<noteq> [] \<Longrightarrow> \<forall>r \<in> set rs. c \<notin> set r \<Longrightarrow> split_on c (join_with c rs) = rs"
proof (induction c rs rule: join_with.induct)
  case (1 c)
  then show ?case by simp
next
  case (2 c r)
  then show ?case by (simp add: split_on_no_sep)
next
  case (3 c r v va)
  then show ?case by (simp add: split_on_append_sep)
qed

lemma join_with_Nil_iff: "join_with c rs = [] \<longleftrightarrow> rs = [] \<or> rs = [[]]"
  by (induction c rs rule: join_with.induct) auto

lemma allowedRoles_of_cases:
  "allowedRoles_of E opts =
     (case o_allowedRoles opts of
        Some (RolesArray rs) \<Rightarrow> rs
      | Some (RolesString s) \<Rightarrow>
          if s = [] then AUTH_USER_DEFAULT_ALLOWED_ROLES E else split_on CHR '','' s
      | None \<Rightarrow> AUTH_USER_DEFAULT_ALLOWED_ROLES E)"
  by (simp add: allowedRoles_of_def split: option.splits roles_option.splits)

lemma transformOauthProfile_roles:
  "transformOauthProfile E p opts = Inr ui \<Longrightarrow> ui_roles ui = allowedRoles_of E opts"
  by (auto simp: transformOauthProfile_def Let_def split: sum.splits)

lemma transformOauthProfile_roles_cong:
  "allowedRoles_of E (opts\<lparr>o_allowedRoles := a\<rparr>) = allowedRoles_of E (opts\<lparr>o_allowedRoles := b\<rparr>)
   \<Longrightarrow> transformOauthProfile E p (opts\<lparr>o_allowedRoles := a\<rparr>) =
       transformOauthProfile E p (opts\<lparr>o_allowedRoles := b\<rparr>)"
  by (simp add: transformOauthProfile_def Let_def split: sum.splits)

text \<open>
  Claim C10, as the code has it. The roles of the user record that \<open>transformOauthProfile\<close>
  returns are: the array given as \<open>allowedRoles\<close>, verbatim; for a non-empty string, the
  string split on commas; for an absent option and for the empty string (which is falsy),
  the configured default roles. Hence a non-empty comma-separated string gives the same
  record as the array of its parts: joining an array of comma-free roles (other than \<open>[]\<close>
  and \<open>['']\<close>, whose joins are empty) with commas gives the same result as the array itself.
\<close>

theorem transformOauthProfile_allowedRoles:
  "(\<forall>ui. transformOauthProfile E p opts = Inr ui \<longrightarrow>
      ui_roles ui =
        (case o_allowedRoles opts of
           Some (RolesArray rs) \<Rightarrow> rs
         | Some (RolesString s) \<Rightarrow>
             if s = [] then AUTH_USER_DEFAULT_ALLOWED_ROLES E else split_on CHR '','' s
         | None \<Rightarrow> AUTH_USER_DEFAULT_ALLOWED_ROLES E)) \<and>
   (rs \<noteq> [] \<and> rs \<noteq> [[]] \<and> (\<forall>r \<in> set rs. CHR '','' \<notin> set r) \<longrightarrow>
      transformOauthProfile E p (opts\<lparr>o_allowedRoles := Some (RolesString (join_with CHR '','' rs))\<rparr>) =
      transformOauthProfile E p (opts\<lparr>o_allowedRoles := Some (RolesArray rs)\<rparr>))"
proof (intro conjI allI impI)
  fix ui
  assume "transformOauthProfile E p opts = Inr ui"
  then show "ui_roles ui =
        (case o_allowedRoles opts of
           Some (RolesArray rs) \<Rightarrow> rs
         | Some (RolesString s) \<Rightarrow>
             if s = [] then AUTH_USER_DEFAULT_ALLOWED_ROLES E else split_on CHR '','' s
         | None \<Rightarrow> AUTH_USER_DEFAULT_ALLOWED_ROLES E)"
    using transformOauthProfile_roles allowedRoles_of_cases by metis
next
  assume h: "rs \<noteq> [] \<and> rs \<noteq> [[]] \<and> (\<forall>r \<in> set rs. CHR '','' \<notin> set r)"
  then have "join_with CHR '','' rs \<noteq> []"
    by (simp add: join_with_Nil_iff)
  moreover from h have "split_on CHR '','' (join_with CHR '','' rs) = rs"
    by (simp add: split_on_join_with)
  ultimately show "transformOauthProfile E p (opts\<lparr>o_allowedRoles := Some (RolesString (join_with CHR '','' rs))\<rparr>) =
      transformOauthProfile E p (opts\<lparr>o_allowedRoles := Some (RolesArray rs)\<rparr>)"
    by (intro transformOauthProfile_roles_cong) (simp add: allowedRoles_of_cases)
qed

text \<open>The theorem at a sample profile and the string \<open>user,editor\<close>.\<close>

lemma sample_transform:
  "transformOauthProfile sample_env sample_profile (no_options\<lparr>o_allowedRoles := a\<rparr>) =
     Inr \<lparr> ui_passwordHash = None, ui_metadata = [], ui_email = Some ''a@example.com'',
           ui_emailVerified = False, ui_defaultRole = ''user'',
           ui_roles = allowedRoles_of sample_env (no_options\<lparr>o_allowedRoles := a\<rparr>),
           ui_locale = Some ''en'', ui_displayName = Some ''a@example.com'',
           ui_avatarUrl = [] \<rparr>"
  by (simp add: transformOauthProfile_def sample_env_def sample_profile_def no_options_def
      sample_emailValidator_def sample_localeValidator_def js_or_def)

theorem transformOauthProfile_allowedRoles_witness:
  "transformOauthProfile sample_env sample_profile
     (no_options\<lparr>o_allowedRoles := Some (RolesString ''user,editor'')\<rparr>) =
   transformOauthProfile sample_env sample_profile
     (no_options\<lparr>o_allowedRoles := Some (RolesArray [''user'', ''editor''])\<rparr>) \<and>
   map_sum id ui_roles (transformOauthProfile sample_env sample_profile
     (no_options\<lparr>o_allowedRoles := Some (RolesString ''user,editor'')\<rparr>)) =
     Inr [''user'', ''editor'']"
  using transformOauthProfile_allowedRoles
          [of sample_env sample_profile
              "no_options\<lparr>o_allowedRoles := Some (RolesString ''user,editor'')\<rparr>"
              "[''user'', ''editor'']"]
  by (simp add: sample_transform allowedRoles_of_def)

text \<open>
  The empty string is a string, but it is not split: it yields the default roles, where the
  array of its parts, \<open>['']\<close>, yields the single empty role.
\<close>

theorem empty_string_roles_counterexample:
  "map_sum id ui_roles (transformOauthProfile sample_env sample_profile
     (no_options\<lparr>o_allowedRoles := Some (RolesString [])\<rparr>)) = Inr [''user'', ''me''] \<and>
   map_sum id ui_roles (transformOauthProfile sample_env sample_profile
     (no_options\<lparr>o_allowedRoles := Some (RolesArray (split_on CHR '','' []))\<rparr>)) = Inr [[]] \<and>
   split_on CHR '','' [] = [[]]"
  by (simp add: sample_transform allowedRoles_of_def) (simp add: sample_env_def no_options_def)

section \<open>Account resolution, branch by branch\<close>

lemma findOrCreateUser_missing_id:
  "\<not> truthy (p_id profile) \<Longrightarrow>
   findOrCreateUser E provider profile rt at opts st =
     (Inl (Error (''Missing id in profile for provider '' @ provider)), st)"
  by (simp add: findOrCreateUser_def)

lemma findOrCreateUser_existing_link:
  assumes "p_id profile = Some pid" "pid \<noteq> []"
    and "matching_links provider pid st = l # rest"
  shows "findOrCreateUser E provider profile rt at opts st =
     (case db_raises E OpAuthUserProviders of
        Some m \<Rightarrow> (Inl (Error m), st\<lparr>trace := trace st @ [Db OpAuthUserProviders]\<rparr>)
      | None \<Rightarrow>
         (case db_raises E OpUpdateAuthUserprovider of
            Some m \<Rightarrow> (Inl (Error m),
               st\<lparr>trace := trace st @ [Db OpAuthUserProviders, Db OpUpdateAuthUserprovider]\<rparr>)
          | None \<Rightarrow> (Inr (find (\<lambda>u. u_id u = up_userId l) (users st)),
               st\<lparr>user_providers :=
                     map (\<lambda>x. if up_id x = up_id l
                               then x\<lparr>up_accessToken := at, up_refreshToken := rt\<rparr> else x)
                       (user_providers st),
                   trace := trace st @ [Db OpAuthUserProviders, Db OpUpdateAuthUserprovider]\<rparr>)))"
  using assms
  by (simp add: findOrCreateUser_def authUserProviders_def updateAuthUserprovider_def
      matching_links_def db_call_def Let_def split: option.splits)


lemma findOrCreateUser_link_by_email:
  assumes "p_id profile = Some pid" "pid \<noteq> []"
    and "matching_links provider pid st = []"
    and "user_by_email (p_email profile) st = Some u"
  shows "findOrCreateUser E provider profile rt at opts st =
     (case db_raises E OpAuthUserProviders of
        Some m \<Rightarrow> (Inl (Error m), st\<lparr>trace := trace st @ [Db OpAuthUserProviders]\<rparr>)
      | None \<Rightarrow>
         (case db_raises E OpGetUserByEmail of
            Some m \<Rightarrow> (Inl (Error m),
               st\<lparr>trace := trace st @ [Db OpAuthUserProviders, Db OpGetUserByEmail]\<rparr>)
          | None \<Rightarrow>
             (case db_raises E OpInsertUserProviderToUser of
                Some m \<Rightarrow> (Inl (Error m),
                   st\<lparr>trace := trace st @ [Db OpAuthUserProviders, Db OpGetUserByEmail,
                                             Db OpInsertUserProviderToUser]\<rparr>)
              | None \<Rightarrow>
                  if db_no_row E OpInsertUserProviderToUser
                  then (Inl (Error ''Could not add a provider to user''),
                        st\<lparr>trace := trace st @ [Db OpAuthUserProviders, Db OpGetUserByEmail,
                                                  Db OpInsertUserProviderToUser]\<rparr>)
                  else (Inr (Some u),
                        st\<lparr>user_providers := user_providers st @
                               [new_link E (next_id st) (u_id u) provider pid at rt],
                            next_id := Suc (next_id st),
                            trace := trace st @ [Db OpAuthUserProviders, Db OpGetUserByEmail,
                                                  Db OpInsertUserProviderToUser]\<rparr>))))"
  using assms
  by (cases "p_email profile")
     (simp_all add: findOrCreateUser_def authUserProviders_def getUserByEmail_def
      insertUserProviderToUser_def matching_links_def user_by_email_def new_link_def
      db_call_def Let_def split: option.splits if_splits)

lemma findOrCreateUser_create:
  assumes "p_id profile = Some pid" "pid \<noteq> []"
    and "matching_links provider pid st = []"
    and "user_by_email (p_email profile) st = None"
  shows "findOrCreateUser E provider profile rt at opts st =
     (case db_raises E OpAuthUserProviders of
        Some m \<Rightarrow> (Inl (Error m), st\<lparr>trace := trace st @ [Db OpAuthUserProviders]\<rparr>)
      | None \<Rightarrow>
         (if truthy (p_email profile) \<and> db_raises E OpGetUserByEmail \<noteq> None
          then (Inl (Error (case db_raises E OpGetUserByEmail of Some m \<Rightarrow> m | None \<Rightarrow> [])),
                st\<lparr>trace := trace st @ email_lookup_trace profile\<rparr>)
          else
            (case transformOauthProfile E profile opts of
               Inl e \<Rightarrow> (Inl e, st\<lparr>trace := trace st @ email_lookup_trace profile\<rparr>)
             | Inr ui \<Rightarrow>
                (case db_raises E OpInsertUser of
                   Some m \<Rightarrow> (Inl (Error m),
                      st\<lparr>trace := trace st @ email_lookup_trace profile @ [Db OpInsertUser]\<rparr>)
                 | None \<Rightarrow>
                     if db_no_row E OpInsertUser
                     then (Inr None,
                        st\<lparr>trace := trace st @ email_lookup_trace profile @ [Db OpInsertUser]\<rparr>)
                     else (Inr (Some (new_user E (next_id st) ui)),
                        st\<lparr>users := users st @ [new_user E (next_id st) ui],
                            user_providers := user_providers st @
                              [new_link E (Suc (next_id st)) (newId E (next_id st))
                                 provider pid at rt],
                            next_id := Suc (Suc (next_id st)),
                            trace := trace st @ email_lookup_trace profile @ [Db OpInsertUser]\<rparr>)))))"
  using assms
  by (cases "p_email profile")
     (simp_all add: findOrCreateUser_def authUserProviders_def getUserByEmail_def
      create_new_user_def insertUser_def
      matching_links_def user_by_email_def new_link_def new_user_def email_lookup_trace_def
      db_call_def Let_def split: option.splits if_splits sum.splits)

section \<open>Sample environment facts\<close>

lemma sample_env_reliable: "store_reliable sample_env"
  by (simp add: store_reliable_def sample_env_def)

lemma sample_env_simps:
  "db_raises sample_env op = None" "db_no_row sample_env op = False"
  "newId sample_env n = ''id'' @ replicate n CHR ''+''"
  "mintToken sample_env n = ''token'' @ replicate n CHR ''+''"
  "emailValidator sample_env = sample_emailValidator"
  "localeValidator sample_env = sample_localeValidator"
  "getGravatarUrl sample_env x = None"
  "AUTH_LOCALE_DEFAULT sample_env = Some ''en''"
  "AUTH_USER_DEFAULT_ALLOWED_ROLES sample_env = [''user'', ''me'']"
  "AUTH_USER_DEFAULT_ROLE sample_env = ''user''"
  "AUTH_CLIENT_URL sample_env = ''http://localhost:3000''"
  "PROVIDERS_CONFIG sample_env = sample_providers"
  "fetch_userinfo sample_env = sample_fetch"
  "verifyRegistrationResponse sample_env = sample_verify"
  "base64url sample_env b = ''Bw''" "hex sample_env b = ''0102''"
  by (simp_all add: sample_env_def)

section \<open>Precedence of account resolution\<close>

text \<open>
  Claim C1, as the code has it. For a profile whose id is present and a store whose calls
  succeed, resolution takes the first of three branches that applies, in this order:
  (1) a link exists for the provider and the profile's id: the tokens of the link are
  replaced and the user the link references is returned, with no lookup by email;
  (2) otherwise the profile has an email and a user has that email: a link to that user is
  appended and that user is returned;
  (3) otherwise the profile is transformed into a user record, which validates its email:
  when the validator rejects, the error is raised and no table is written; when it
  accepts, a user is appended together with its first link and returned.
\<close>

theorem findOrCreateUser_precedence:
  assumes "p_id profile = Some pid" and "pid \<noteq> []" and "store_reliable E"
  shows "findOrCreateUser E provider profile rt at opts st =
     (case matching_links provider pid st of
        l # _ \<Rightarrow>
          (Inr (find (\<lambda>u. u_id u = up_userId l) (users st)),
           st\<lparr>user_providers :=
                 map (\<lambda>x. if up_id x = up_id l
                           then x\<lparr>up_accessToken := at, up_refreshToken := rt\<rparr> else x)
                   (user_providers st),
               trace := trace st @ [Db OpAuthUserProviders, Db OpUpdateAuthUserprovider]\<rparr>)
      | [] \<Rightarrow>
          (case user_by_email (p_email profile) st of
             Some u \<Rightarrow>
               (Inr (Some u),
                st\<lparr>user_providers := user_providers st @
                       [new_link E (next_id st) (u_id u) provider pid at rt],
                    next_id := Suc (next_id st),
                    trace := trace st @ [Db OpAuthUserProviders, Db OpGetUserByEmail,
                                          Db OpInsertUserProviderToUser]\<rparr>)
           | None \<Rightarrow>
               (case transformOauthProfile E profile opts of
                  Inl e \<Rightarrow> (Inl e, st\<lparr>trace := trace st @ email_lookup_trace profile\<rparr>)
                | Inr ui \<Rightarrow>
                    (Inr (Some (new_user E (next_id st) ui)),
                     st\<lparr>users := users st @ [new_user E (next_id st) ui],
                         user_providers := user_providers st @
                           [new_link E (Suc (next_id st)) (newId E (next_id st))
                              provider pid at rt],
                         next_id := Suc (Suc (next_id st)),
                         trace := trace st @ email_lookup_trace profile @ [Db OpInsertUser]\<rparr>))))"
proof (cases "matching_links provider pid st")
  case (Cons l rest)
  with assms show ?thesis
    by (simp add: findOrCreateUser_existing_link store_reliable_def)
next
  case Nil
  show ?thesis
  proof (cases "user_by_email (p_email profile) st")
    case (Some u)
    with Nil assms show ?thesis
      by (simp add: findOrCreateUser_link_by_email store_reliable_def)
  next
    case None
    with Nil assms show ?thesis
      by (simp add: findOrCreateUser_create store_reliable_def split: sum.splits)
  qed
qed

text \<open>
  The theorem at three stores: one with a link for the provider identity, one with only a
  user of the profile's email, and the empty one.
\<close>

theorem findOrCreateUser_precedence_witness:
  "p_id sample_profile = Some ''42'' \<and> ''42'' \<noteq> [] \<and> store_reliable sample_env \<and>
   findOrCreateUser sample_env ''github'' sample_profile (Some ''r'') (Some ''a'') no_options
     (empty_store\<lparr>users := [sample_user], user_providers := [sample_link]\<rparr>) =
   (Inr (Some sample_user),
    empty_store\<lparr>users := [sample_user],
       user_providers := [sample_link\<lparr>up_accessToken := Some ''a'', up_refreshToken := Some ''r''\<rparr>],
       trace := [Db OpAuthUserProviders, Db OpUpdateAuthUserprovider]\<rparr>) \<and>
   findOrCreateUser sample_env ''github'' sample_profile (Some ''r'') (Some ''a'') no_options
     (empty_store\<lparr>users := [sample_user]\<rparr>) =
   (Inr (Some sample_user),
    empty_store\<lparr>users := [sample_user],
       user_providers := [new_link sample_env 0 ''u1'' ''github'' ''42'' (Some ''a'') (Some ''r'')],
       next_id := 1,
       trace := [Db OpAuthUserProviders, Db OpGetUserByEmail,
                 Db OpInsertUserProviderToUser]\<rparr>) \<and>
   findOrCreateUser sample_env ''github'' sample_profile (Some ''r'') (Some ''a'') no_options
     empty_store =
   (Inr (Some (new_user sample_env 0
      \<lparr> ui_passwordHash = None, ui_metadata = [], ui_email = Some ''a@example.com'',
        ui_emailVerified = False, ui_defaultRole = ''user'', ui_roles = [''user'', ''me''],
        ui_locale = Some ''en'', ui_displayName = Some ''a@example.com'',
        ui_avatarUrl = [] \<rparr>)),
    empty_store\<lparr>users := [new_user sample_env 0
      \<lparr> ui_passwordHash = None, ui_metadata = [], ui_email = Some ''a@example.com'',
        ui_emailVerified = False, ui_defaultRole = ''user'', ui_roles = [''user'', ''me''],
        ui_locale = Some ''en'', ui_displayName = Some ''a@example.com'',
        ui_avatarUrl = [] \<rparr>],
       user_providers := [new_link sample_env 1 ''id'' ''github'' ''42'' (Some ''a'') (Some ''r'')],
       next_id := 2,
       trace := [Db OpAuthUserProviders, Db OpGetUserByEmail, Db OpInsertUser]\<rparr>)"
proof -
  have h: "p_id sample_profile = Some ''42''" "''42'' \<noteq> []"
    by (simp_all add: sample_profile_def)
  note t = findOrCreateUser_precedence
             [OF h sample_env_reliable, of "''github''" "Some ''r''" "Some ''a''" no_options]
  have tr: "transformOauthProfile sample_env sample_profile no_options =
      Inr \<lparr> ui_passwordHash = None, ui_metadata = [], ui_email = Some ''a@example.com'',
        ui_emailVerified = False, ui_defaultRole = ''user'', ui_roles = [''user'', ''me''],
        ui_locale = Some ''en'', ui_displayName = Some ''a@example.com'',
        ui_avatarUrl = [] \<rparr>"
    using sample_transform [of None]
    by (simp add: no_options_def allowedRoles_of_def sample_env_simps)
  have e: "email_lookup_trace sample_profile = [Db OpAuthUserProviders, Db OpGetUserByEmail]"
    by (simp add: email_lookup_trace_def sample_profile_def)
  have 1: "matching_links ''github'' ''42''
             (empty_store\<lparr>users := [sample_user], user_providers := [sample_link]\<rparr>) =
           [sample_link]"
    and 2: "matching_links ''github'' ''42'' (empty_store\<lparr>users := [sample_user]\<rparr>) = []"
    and 3: "matching_links ''github'' ''42'' empty_store = []"
    and 4: "user_by_email (p_email sample_profile) (empty_store\<lparr>users := [sample_user]\<rparr>) =
           Some sample_user"
    and 5: "user_by_email (p_email sample_profile) empty_store = None"
    by (simp_all add: matching_links_def user_by_email_def empty_store_def sample_link_def
        sample_user_def sample_profile_def)
  have b1: "findOrCreateUser sample_env ''github'' sample_profile (Some ''r'') (Some ''a'')
      no_options (empty_store\<lparr>users := [sample_user], user_providers := [sample_link]\<rparr>) =
   (Inr (Some sample_user),
    empty_store\<lparr>users := [sample_user],
       user_providers := [sample_link\<lparr>up_accessToken := Some ''a'', up_refreshToken := Some ''r''\<rparr>],
       trace := [Db OpAuthUserProviders, Db OpUpdateAuthUserprovider]\<rparr>)"
    unfolding t 1 by (simp add: empty_store_def sample_link_def sample_user_def)
  have b2: "findOrCreateUser sample_env ''github'' sample_profile (Some ''r'') (Some ''a'')
      no_options (empty_store\<lparr>users := [sample_user]\<rparr>) =
   (Inr (Some sample_user),
    empty_store\<lparr>users := [sample_user],
       user_providers := [new_link sample_env 0 ''u1'' ''github'' ''42'' (Some ''a'') (Some ''r'')],
       next_id := 1,
       trace := [Db OpAuthUserProviders, Db OpGetUserByEmail,
                 Db OpInsertUserProviderToUser]\<rparr>)"
    unfolding t 2 4 by (simp add: empty_store_def sample_user_def)
  have b3: "findOrCreateUser sample_env ''github'' sample_profile (Some ''r'') (Some ''a'')
      no_options empty_store =
   (Inr (Some (new_user sample_env 0
      \<lparr> ui_passwordHash = None, ui_metadata = [], ui_email = Some ''a@example.com'',
        ui_emailVerified = False, ui_defaultRole = ''user'', ui_roles = [''user'', ''me''],
        ui_locale = Some ''en'', ui_displayName = Some ''a@example.com'',
        ui_avatarUrl = [] \<rparr>)),
    empty_store\<lparr>users := [new_user sample_env 0
      \<lparr> ui_passwordHash = None, ui_metadata = [], ui_email = Some ''a@example.com'',
        ui_emailVerified = False, ui_defaultRole = ''user'', ui_roles = [''user'', ''me''],
        ui_locale = Some ''en'', ui_displayName = Some ''a@example.com'',
        ui_avatarUrl = [] \<rparr>],
       user_providers := [new_link sample_env 1 ''id'' ''github'' ''42'' (Some ''a'') (Some ''r'')],
       next_id := 2,
       trace := [Db OpAuthUserProviders, Db OpGetUserByEmail, Db OpInsertUser]\<rparr>)"
    unfolding t 3 5 tr e by (simp add: empty_store_def sample_env_simps)
  from h sample_env_reliable b1 b2 b3 show ?thesis by blast
qed

text \<open>
  A profile with an id, no link and no user of its email, whose email the validator rejects:
  none of the three outcomes occurs. The store holds no new user, and an error is raised.
\<close>

theorem invalid_email_counterexample:
  "p_id (sample_profile\<lparr>p_email := Some ''not-an-email''\<rparr>) = Some ''42'' \<and>
   store_reliable sample_env \<and>
   findOrCreateUser sample_env ''github'' (sample_profile\<lparr>p_email := Some ''not-an-email''\<rparr>)
     (Some ''r'') (Some ''a'') no_options empty_store =
   (Inl (Error ''value must be a valid email''),
    empty_store\<lparr>trace := [Db OpAuthUserProviders, Db OpGetUserByEmail]\<rparr>)"
  by (simp add: sample_env_reliable)
     (simp add: findOrCreateUser_def authUserProviders_def getUserByEmail_def
      create_new_user_def transformOauthProfile_def db_call_def sample_env_simps
      sample_emailValidator_def sample_profile_def empty_store_def)

section \<open>Linking by email\<close>

lemma new_events_simps [simp]:
  "new_events st (st\<lparr>trace := trace st @ xs\<rparr>) = xs"
  "new_events st (st\<lparr>user_providers := ups, trace := trace st @ xs\<rparr>) = xs"
  "new_events st (st\<lparr>user_providers := ups, next_id := n, trace := trace st @ xs\<rparr>) = xs"
  "new_events st (st\<lparr>users := us, user_providers := ups, next_id := n,
                      trace := trace st @ xs\<rparr>) = xs"
  "new_events st st = []"
  by (simp_all add: new_events_def)

text \<open>
  Claim C5. For a profile with an id that has no link, whose email is present and belongs to
  a user, and a store whose calls succeed: resolution appends a link from that user to the
  provider identity and returns that user; no user is created. The outcome is the same for
  every value \<open>v\<close> of the profile's \<open>emailVerified\<close> flag, absent, false or true.
\<close>

theorem link_by_email_without_emailVerified:
  assumes "p_id profile = Some pid" and "pid \<noteq> []" and "store_reliable E"
    and "matching_links provider pid st = []"
    and "user_by_email (p_email profile) st = Some u"
  shows "findOrCreateUser E provider (profile\<lparr>p_emailVerified := v\<rparr>) rt at opts st =
     (Inr (Some u),
      st\<lparr>user_providers := user_providers st @
             [new_link E (next_id st) (u_id u) provider pid at rt],
          next_id := Suc (next_id st),
          trace := trace st @ [Db OpAuthUserProviders, Db OpGetUserByEmail,
                                Db OpInsertUserProviderToUser]\<rparr>)"
  using assms
  by (simp add: findOrCreateUser_link_by_email [where pid = pid and u = u] store_reliable_def)

text \<open>The theorem at a profile flagged as not verified and a store with one user of its email.\<close>

theorem link_by_email_without_emailVerified_witness:
  "p_id sample_profile = Some ''42'' \<and> ''42'' \<noteq> [] \<and> store_reliable sample_env \<and>
   matching_links ''github'' ''42'' (empty_store\<lparr>users := [sample_user]\<rparr>) = [] \<and>
   user_by_email (p_email sample_profile) (empty_store\<lparr>users := [sample_user]\<rparr>)
     = Some sample_user \<and>
   findOrCreateUser sample_env ''github'' (sample_profile\<lparr>p_emailVerified := Some False\<rparr>)
     (Some ''r'') (Some ''a'') no_options (empty_store\<lparr>users := [sample_user]\<rparr>) =
   (Inr (Some sample_user),
    empty_store\<lparr>users := [sample_user],
       user_providers := [\<lparr> up_id = ''id'', up_userId = ''u1'', up_providerId = ''github'',
                             up_providerUserId = ''42'', up_accessToken = Some ''a'',
                             up_refreshToken = Some ''r'' \<rparr>],
       next_id := 1,
       trace := [Db OpAuthUserProviders, Db OpGetUserByEmail,
                 Db OpInsertUserProviderToUser]\<rparr>)"
  using link_by_email_without_emailVerified
          [of sample_profile "''42''" sample_env "''github''"
              "empty_store\<lparr>users := [sample_user]\<rparr>" sample_user "Some False"
              "Some ''r''" "Some ''a''" no_options]
        sample_env_reliable
  by (simp add: sample_profile_def matching_links_def user_by_email_def empty_store_def
      sample_user_def new_link_def sample_env_simps)

section \<open>The frame of a token update\<close>

text \<open>
  Claim C8. When a link exists for the provider and the profile's id, resolution leaves the
  users table as it is (so no field of any user changes), and in the links table every row keeps
  its id, user, provider and provider user id, and rows with another id than the link found
  are untouched: only the access and refresh token of that link can change. When the store's
  calls succeed, these become the tokens given and the user the link references is returned.
\<close>

theorem existing_link_frame:
  assumes "p_id profile = Some pid" and "pid \<noteq> []"
    and "matching_links provider pid st = l # rest"
  shows "users (snd (findOrCreateUser E provider profile rt at opts st)) = users st \<and>
     authenticators (snd (findOrCreateUser E provider profile rt at opts st)) = authenticators st \<and>
     refresh_tokens (snd (findOrCreateUser E provider profile rt at opts st)) = refresh_tokens st \<and>
     map (\<lambda>x. x\<lparr>up_accessToken := None, up_refreshToken := None\<rparr>)
         (user_providers (snd (findOrCreateUser E provider profile rt at opts st))) =
       map (\<lambda>x. x\<lparr>up_accessToken := None, up_refreshToken := None\<rparr>) (user_providers st) \<and>
     filter (\<lambda>x. up_id x \<noteq> up_id l)
         (user_providers (snd (findOrCreateUser E provider profile rt at opts st))) =
       filter (\<lambda>x. up_id x \<noteq> up_id l) (user_providers st) \<and>
     (store_reliable E \<longrightarrow>
        fst (findOrCreateUser E provider profile rt at opts st) =
          Inr (find (\<lambda>u. u_id u = up_userId l) (users st)) \<and>
        user_providers (snd (findOrCreateUser E provider profile rt at opts st)) =
          map (\<lambda>x. if up_id x = up_id l
                    then x\<lparr>up_accessToken := at, up_refreshToken := rt\<rparr> else x)
            (user_providers st))"
proof -
  have a: "map (\<lambda>x. x\<lparr>up_accessToken := None, up_refreshToken := None\<rparr>)
             (map (\<lambda>x. if up_id x = i
                         then x\<lparr>up_accessToken := at, up_refreshToken := rt\<rparr> else x) xs) =
           map (\<lambda>x. x\<lparr>up_accessToken := None, up_refreshToken := None\<rparr>) xs" for i xs
    by (induction xs) auto
  have b: "filter (\<lambda>x. up_id x \<noteq> i)
             (map (\<lambda>x. if up_id x = i
                         then x\<lparr>up_accessToken := at, up_refreshToken := rt\<rparr> else x) xs) =
           filter (\<lambda>x. up_id x \<noteq> i) xs" for i xs
    by (induction xs) auto
  show ?thesis
    using assms
    by (simp add: findOrCreateUser_existing_link [where pid = pid and l = l and rest = rest]
        a b store_reliable_def split: option.splits)
qed

text \<open>The theorem at a store with one user and one link.\<close>

theorem existing_link_frame_witness:
  "p_id sample_profile = Some ''42'' \<and> ''42'' \<noteq> [] \<and> store_reliable sample_env \<and>
   matching_links ''github'' ''42''
     (empty_store\<lparr>users := [sample_user], user_providers := [sample_link]\<rparr>) = [sample_link] \<and>
   users (snd (findOrCreateUser sample_env ''github'' sample_profile (Some ''r'') (Some ''a'')
     no_options (empty_store\<lparr>users := [sample_user], user_providers := [sample_link]\<rparr>)))
     = [sample_user] \<and>
   fst (findOrCreateUser sample_env ''github'' sample_profile (Some ''r'') (Some ''a'')
     no_options (empty_store\<lparr>users := [sample_user], user_providers := [sample_link]\<rparr>))
     = Inr (Some sample_user) \<and>
   user_providers (snd (findOrCreateUser sample_env ''github'' sample_profile (Some ''r'')
     (Some ''a'') no_options
     (empty_store\<lparr>users := [sample_user], user_providers := [sample_link]\<rparr>)))
     = [sample_link\<lparr>up_accessToken := Some ''a'', up_refreshToken := Some ''r''\<rparr>]"
  using existing_link_frame
          [of sample_profile "''42''" "''github''"
              "empty_store\<lparr>users := [sample_user], user_providers := [sample_link]\<rparr>"
              sample_link "[]" sample_env "Some ''r''" "Some ''a''" no_options]
        sample_env_reliable
  by (simp add: sample_profile_def matching_links_def empty_store_def sample_link_def
      sample_user_def)

section \<open>Errors of account resolution\<close>

text \<open>
  Claim C7, as the code has it. For a profile whose id is missing (absent or empty),
  resolution raises an error with the message \<open>Missing id in profile for provider\<close> followed
  by the provider's name, and leaves the whole state as it was: no call on the store is made,
  no link is created and no user is returned. A failure of the store is surfaced: whenever
  a call that resolution made on the store fails with a message, resolution fails with
  that message.
\<close>

theorem missing_id_and_store_failure:
  "(\<not> truthy (p_id profile) \<longrightarrow>
      findOrCreateUser E provider profile rt at opts st =
        (Inl (Error (''Missing id in profile for provider '' @ provider)), st)) \<and>
   (\<forall>op m. Db op \<in> set (new_events st (snd (findOrCreateUser E provider profile rt at opts st)))
            \<and> db_raises E op = Some m \<longrightarrow>
      fst (findOrCreateUser E provider profile rt at opts st) = Inl (Error m))"
proof (cases "truthy (p_id profile)")
  case False
  then show ?thesis by (simp add: findOrCreateUser_missing_id)
next
  case True
  then obtain pid where pid: "p_id profile = Some pid" "pid \<noteq> []"
    by (cases "p_id profile") auto
  show ?thesis
  proof (cases "matching_links provider pid st")
    case (Cons l rest)
    with pid True show ?thesis
      by (auto simp: findOrCreateUser_existing_link [where pid = pid and l = l and rest = rest]
          split: option.splits)
  next
    case Nil
    show ?thesis
    proof (cases "user_by_email (p_email profile) st")
      case (Some u)
      with Nil pid True show ?thesis
        by (auto simp: findOrCreateUser_link_by_email [where pid = pid and u = u]
            split: option.splits)
    next
      case None
      with Nil pid True show ?thesis
        by (auto simp: findOrCreateUser_create [where pid = pid] email_lookup_trace_def
            split: option.splits sum.splits if_splits)
    qed
  qed
qed

text \<open>
  The theorem at a profile without id, and at a store that rejects the insert of the user.
\<close>

lemma sample_transform_plain:
  "transformOauthProfile failing_env sample_profile no_options =
     Inr \<lparr> ui_passwordHash = None, ui_metadata = [], ui_email = Some ''a@example.com'',
           ui_emailVerified = False, ui_defaultRole = ''user'',
           ui_roles = [''user'', ''me''],
           ui_locale = Some ''en'', ui_displayName = Some ''a@example.com'',
           ui_avatarUrl = [] \<rparr>"
  by (simp add: transformOauthProfile_def failing_env_def sample_env_def sample_profile_def
      no_options_def allowedRoles_of_def
      sample_emailValidator_def sample_localeValidator_def js_or_def)

lemma failing_env_run:
  "findOrCreateUser failing_env ''github'' sample_profile (Some ''r'') (Some ''a'')
     no_options empty_store =
   (Inl (Error ''connection refused''),
    empty_store\<lparr>trace := [Db OpAuthUserProviders, Db OpGetUserByEmail, Db OpInsertUser]\<rparr>)"
proof -
  have 1: "p_id sample_profile = Some ''42''" and 2: "''42'' \<noteq> []"
    and 3: "matching_links ''github'' ''42'' empty_store = []"
    and 4: "user_by_email (p_email sample_profile) empty_store = None"
    and 5: "truthy (p_email sample_profile)"
    by (simp_all add: sample_profile_def matching_links_def user_by_email_def empty_store_def)
  have 6: "db_raises failing_env OpAuthUserProviders = None"
    "db_raises failing_env OpGetUserByEmail = None"
    "db_raises failing_env OpInsertUser = Some ''connection refused''"
    by (simp_all add: failing_env_def)
  show ?thesis
    by (simp add: findOrCreateUser_create [OF 1 2 3 4] 5 6 email_lookup_trace_def
        sample_transform_plain)
       (simp add: empty_store_def)
qed

theorem missing_id_and_store_failure_witness:
  "\<not> truthy (p_id (sample_profile\<lparr>p_id := None\<rparr>)) \<and>
   findOrCreateUser sample_env ''github'' (sample_profile\<lparr>p_id := None\<rparr>)
     (Some ''r'') (Some ''a'') no_options empty_store =
     (Inl (Error ''Missing id in profile for provider github''), empty_store) \<and>
   Db OpInsertUser \<in> set (new_events empty_store
     (snd (findOrCreateUser failing_env ''github'' sample_profile (Some ''r'') (Some ''a'')
        no_options empty_store))) \<and>
   db_raises failing_env OpInsertUser = Some ''connection refused'' \<and>
   fst (findOrCreateUser failing_env ''github'' sample_profile (Some ''r'') (Some ''a'')
        no_options empty_store) = Inl (Error ''connection refused'')"
proof -
  have a: "\<not> truthy (p_id (sample_profile\<lparr>p_id := None\<rparr>))"
    by simp
  have b: "Db OpInsertUser \<in> set (new_events empty_store
     (snd (findOrCreateUser failing_env ''github'' sample_profile (Some ''r'') (Some ''a'')
        no_options empty_store)))"
    by (simp add: failing_env_run new_events_def) (simp add: empty_store_def)
  have c: "db_raises failing_env OpInsertUser = Some ''connection refused''"
    by (simp add: failing_env_def)
  note t1 = missing_id_and_store_failure
              [of "sample_profile\<lparr>p_id := None\<rparr>" sample_env "''github''" "Some ''r''"
                  "Some ''a''" no_options empty_store, THEN conjunct1, rule_format, OF a]
  note t2 = missing_id_and_store_failure
              [of sample_profile failing_env "''github''" "Some ''r''" "Some ''a''"
                  no_options empty_store, THEN conjunct2, rule_format, OF conjI, OF b c]
  from a b c t1 t2 show ?thesis by simp
qed

text \<open>
  The error raised for a missing id is not \<open>internal-error\<close>: it is a plain error with its
  own message, and the callback of the redirect flow reports it to the client under the
  code \<open>invalid-request\<close>, with that message as the description.
\<close>

theorem missing_id_error_counterexample:
  "findOrCreateUser sample_env ''github'' (sample_profile\<lparr>p_id := None\<rparr>)
     (Some ''r'') (Some ''a'') no_options empty_store =
     (Inl (Error ''Missing id in profile for provider github''), empty_store) \<and>
   Error ''Missing id in profile for provider github'' \<noteq> Error ''internal-error'' \<and>
   fst (oauth_callback no_id_env ''sid1'' no_query
     (empty_store\<lparr>sessions := [(''sid1'', sample_session sample_grant_response)]\<rparr>)) =
     Redirect ''http://app.example/cb''
       [(''error'', ''invalid-request''),
        (''errorDescription'', ''Missing id in profile for provider github''),
        (''provider'', ''github'')]"
  by (simp add: findOrCreateUser_def oauth_callback_def createUser_def sendErrorFromQuery_def
      normaliseProfile_def obj_get_def no_id_env_def sample_env_simps sample_profile_def empty_store_def
      sample_session_def sample_grant_response_def no_query_def js_or_def Let_def)

section \<open>The native token exchange and provider errors\<close>

text \<open>
  Claim C9, as the code has it. When the identity endpoint answers with an object that has
  both the keys \<open>error\<close> and \<open>error_description\<close>, the handler sends that payload unchanged,
  and the only thing it has done is the fetch: no call on the store, no account resolution.
  An answer that is neither such an error nor user data is reported as an unknown format
  (as text in one copy of the handler, as an object wrapping the payload in the other),
  again with no call on the store.
\<close>

theorem native_error_payload:
  assumes "fetch_userinfo E accessToken = Inr data"
  shows "(isErrorResponse data \<longrightarrow>
            signInWithGoogleAccessToken E accessToken st =
              (SendJson data, st\<lparr>trace := trace st @ [Fetch accessToken]\<rparr>) \<and>
            signInWithGoogleAccessToken_2 E accessToken st =
              (SendJson data, st\<lparr>trace := trace st @ [Fetch accessToken]\<rparr>)) \<and>
         (\<not> isErrorResponse data \<and> \<not> isUserData data \<longrightarrow>
            signInWithGoogleAccessToken E accessToken st =
              (SendText (''unknown format for google response: '' @ js_string data),
               st\<lparr>trace := trace st @ [Fetch accessToken]\<rparr>) \<and>
            signInWithGoogleAccessToken_2 E accessToken st =
              (SendJson (JObj [(''error'', JStr ''unknown format for google response!''),
                               (''data'', data)]),
               st\<lparr>trace := trace st @ [Fetch accessToken]\<rparr>))"
  using assms
  by (simp add: signInWithGoogleAccessToken_def signInWithGoogleAccessToken_2_def Let_def)

text \<open>The theorem at an error answer with a description, and at one without.\<close>

theorem native_error_payload_witness:
  "fetch_userinfo sample_env ''zzz'' =
     Inr (JObj [(''error'', JStr ''invalid_request''),
                (''error_description'', JStr ''Invalid Credentials'')]) \<and>
   isErrorResponse (JObj [(''error'', JStr ''invalid_request''),
                          (''error_description'', JStr ''Invalid Credentials'')]) \<and>
   signInWithGoogleAccessToken sample_env ''zzz'' empty_store =
     (SendJson (JObj [(''error'', JStr ''invalid_request''),
                      (''error_description'', JStr ''Invalid Credentials'')]),
      empty_store\<lparr>trace := [Fetch ''zzz'']\<rparr>) \<and>
   fetch_userinfo sample_env ''abc'' = Inr (JObj [(''error'', JStr ''invalid_token'')]) \<and>
   \<not> isErrorResponse (JObj [(''error'', JStr ''invalid_token'')]) \<and>
   \<not> isUserData (JObj [(''error'', JStr ''invalid_token'')]) \<and>
   signInWithGoogleAccessToken sample_env ''abc'' empty_store =
     (SendText ''unknown format for google response: [object Object]'',
      empty_store\<lparr>trace := [Fetch ''abc'']\<rparr>)"
proof -
  have a: "fetch_userinfo sample_env ''zzz'' =
     Inr (JObj [(''error'', JStr ''invalid_request''),
                (''error_description'', JStr ''Invalid Credentials'')])"
    by (simp add: sample_env_simps sample_fetch_def)
  have b: "isErrorResponse (JObj [(''error'', JStr ''invalid_request''),
                          (''error_description'', JStr ''Invalid Credentials'')])"
    by (simp add: isErrorResponse_def)
  have c: "fetch_userinfo sample_env ''abc'' = Inr (JObj [(''error'', JStr ''invalid_token'')])"
    by (simp add: sample_env_simps sample_fetch_def)
  have d: "\<not> isErrorResponse (JObj [(''error'', JStr ''invalid_token'')]) \<and>
           \<not> isUserData (JObj [(''error'', JStr ''invalid_token'')])"
    by (simp add: isErrorResponse_def isUserData_def)
  from native_error_payload [OF a, of empty_store, THEN conjunct1, rule_format, OF b,
         THEN conjunct1]
  have e: "signInWithGoogleAccessToken sample_env ''zzz'' empty_store =
     (SendJson (JObj [(''error'', JStr ''invalid_request''),
                      (''error_description'', JStr ''Invalid Credentials'')]),
      empty_store\<lparr>trace := trace empty_store @ [Fetch ''zzz'']\<rparr>)" .
  from native_error_payload [OF c, of empty_store, THEN conjunct2, rule_format, OF d,
         THEN conjunct1]
  have f: "signInWithGoogleAccessToken sample_env ''abc'' empty_store =
     (SendText (''unknown format for google response: '' @
                js_string (JObj [(''error'', JStr ''invalid_token'')])),
      empty_store\<lparr>trace := trace empty_store @ [Fetch ''abc'']\<rparr>)" .
  from a b c d e f show ?thesis by (simp add: empty_store_def)
qed

text \<open>
  The answer \<open>{error: "invalid_token"}\<close> has no \<open>error_description\<close>, so \<open>isErrorResponse\<close>
  rejects it: what the handler sends is not that payload.
\<close>

theorem invalid_token_payload_counterexample:
  "fetch_userinfo sample_env ''abc'' = Inr (JObj [(''error'', JStr ''invalid_token'')]) \<and>
   signInWithGoogleAccessToken sample_env ''abc'' empty_store =
     (SendText ''unknown format for google response: [object Object]'',
      empty_store\<lparr>trace := [Fetch ''abc'']\<rparr>) \<and>
   signInWithGoogleAccessToken_2 sample_env ''abc'' empty_store =
     (SendJson (JObj [(''error'', JStr ''unknown format for google response!''),
                      (''data'', JObj [(''error'', JStr ''invalid_token'')])]),
      empty_store\<lparr>trace := [Fetch ''abc'']\<rparr>) \<and>
   SendText ''unknown format for google response: [object Object]''
     \<noteq> SendJson (JObj [(''error'', JStr ''invalid_token'')]) \<and>
   SendJson (JObj [(''error'', JStr ''unknown format for google response!''),
                   (''data'', JObj [(''error'', JStr ''invalid_token'')])])
     \<noteq> SendJson (JObj [(''error'', JStr ''invalid_token'')])"
  by (simp add: signInWithGoogleAccessToken_def signInWithGoogleAccessToken_2_def
      sample_env_simps sample_fetch_def isErrorResponse_def isUserData_def empty_store_def)

section \<open>The WebAuthn challenge\<close>

lemma find_map_clear:
  "find (\<lambda>u. u_id u = uid)
     (map (\<lambda>u. if u_id u = uid then u\<lparr>u_currentChallenge := None\<rparr> else u) us) =
   map_option (\<lambda>u. u\<lparr>u_currentChallenge := None\<rparr>) (find (\<lambda>u. u_id u = uid) us)"
  by (induction us) auto

lemma verify_success:
  assumes "fst (verifyWebAuthnRegistration E uid credential nickname st) = Inr ()"
  shows "(\<exists>u. find (\<lambda>u. u_id u = uid) (users st) = Some u) \<and>
         db_raises E OpGetUserChallenge = None \<and>
         users (snd (verifyWebAuthnRegistration E uid credential nickname st)) =
           map (\<lambda>u. if u_id u = uid then u\<lparr>u_currentChallenge := None\<rparr> else u) (users st) \<and>
         (\<exists>a. a_userId a = uid \<and> a_nickname a = nickname \<and>
              authenticators (snd (verifyWebAuthnRegistration E uid credential nickname st)) =
                authenticators st @ [a])"
  using assms
  by (auto simp: verifyWebAuthnRegistration_def getUserChallenge_def addUserAuthenticator_def
      updateUser_def db_call_def Let_def
      split: option.splits if_splits sum.splits prod.splits)

lemma verify_failure:
  assumes "fst (verifyWebAuthnRegistration E uid credential nickname st) = Inl e"
  shows "users (snd (verifyWebAuthnRegistration E uid credential nickname st)) = users st"
  using assms
  by (auto simp: verifyWebAuthnRegistration_def getUserChallenge_def addUserAuthenticator_def
      updateUser_def db_call_def Let_def
      split: option.splits if_splits sum.splits prod.splits)

lemma verify_no_challenge:
  assumes "find (\<lambda>u. u_id u = uid) (users st) = Some u" "u_currentChallenge u = None"
    "db_raises E OpGetUserChallenge = None"
  shows "fst (verifyWebAuthnRegistration E uid credential nickname st) =
           Inl (Error ''invalid-request'')"
  using assms
  by (simp add: verifyWebAuthnRegistration_def getUserChallenge_def db_call_def Let_def)

text \<open>
  Claim C3, as the code has it. A registration attempt that succeeds clears the stored
  challenge of the user and appends exactly one authenticator of that user; submitting the
  same credential response again then fails with \<open>invalid-request\<close>, since no challenge is
  stored. An attempt that fails, for whatever reason, leaves the users table as it was: the
  stored challenge stays in place.
\<close>

theorem verifyWebAuthnRegistration_challenge:
  "(fst (verifyWebAuthnRegistration E uid credential nickname st) = Inr () \<longrightarrow>
      users (snd (verifyWebAuthnRegistration E uid credential nickname st)) =
        map (\<lambda>u. if u_id u = uid then u\<lparr>u_currentChallenge := None\<rparr> else u) (users st) \<and>
      (\<exists>a. a_userId a = uid \<and> a_nickname a = nickname \<and>
           authenticators (snd (verifyWebAuthnRegistration E uid credential nickname st)) =
             authenticators st @ [a]) \<and>
      fst (verifyWebAuthnRegistration E uid credential nickname
             (snd (verifyWebAuthnRegistration E uid credential nickname st))) =
        Inl (Error ''invalid-request'')) \<and>
   (\<forall>e. fst (verifyWebAuthnRegistration E uid credential nickname st) = Inl e \<longrightarrow>
      users (snd (verifyWebAuthnRegistration E uid credential nickname st)) = users st)"
proof (intro conjI impI allI)
  assume ok: "fst (verifyWebAuthnRegistration E uid credential nickname st) = Inr ()"
  note s = verify_success [OF ok]
  from s show "users (snd (verifyWebAuthnRegistration E uid credential nickname st)) =
        map (\<lambda>u. if u_id u = uid then u\<lparr>u_currentChallenge := None\<rparr> else u) (users st)"
    by blast
  from s show "\<exists>a. a_userId a = uid \<and> a_nickname a = nickname \<and>
           authenticators (snd (verifyWebAuthnRegistration E uid credential nickname st)) =
             authenticators st @ [a]"
    by blast
  from s obtain u where u: "find (\<lambda>u. u_id u = uid) (users st) = Some u"
    by blast
  from s have us: "users (snd (verifyWebAuthnRegistration E uid credential nickname st)) =
        map (\<lambda>u. if u_id u = uid then u\<lparr>u_currentChallenge := None\<rparr> else u) (users st)"
    by blast
  have "find (\<lambda>u. u_id u = uid)
          (users (snd (verifyWebAuthnRegistration E uid credential nickname st))) =
        Some (u\<lparr>u_currentChallenge := None\<rparr>)"
    by (simp add: us find_map_clear u)
  moreover have "u_currentChallenge (u\<lparr>u_currentChallenge := None\<rparr>) = None"
    by simp
  moreover from s have "db_raises E OpGetUserChallenge = None"
    by blast
  ultimately show "fst (verifyWebAuthnRegistration E uid credential nickname
             (snd (verifyWebAuthnRegistration E uid credential nickname st))) =
        Inl (Error ''invalid-request'')"
    by (rule verify_no_challenge)
next
  fix e
  assume "fst (verifyWebAuthnRegistration E uid credential nickname st) = Inl e"
  then show "users (snd (verifyWebAuthnRegistration E uid credential nickname st)) = users st"
    by (rule verify_failure)
qed

text \<open>
  The theorem at a user with the stored challenge \<open>c1\<close>: a response to \<open>c1\<close> is verified, a
  response to another challenge is not.
\<close>

lemma sample_verify_ok:
  "verifyWebAuthnRegistration sample_env ''u1'' (JStr ''signed:c1'') None
     (empty_store\<lparr>users := [sample_user]\<rparr>) =
   (Inr (),
    empty_store\<lparr>users := [sample_user\<lparr>u_currentChallenge := None\<rparr>],
       authenticators := [\<lparr> a_id = ''id'', a_userId = ''u1'', a_credentialId = ''Bw'',
                             a_credentialPublicKey = CHR 0x5C # ''x0102'', a_counter = 0,
                             a_nickname = None \<rparr>],
       next_id := 1,
       trace := [Db OpGetUserChallenge, Db OpAddUserAuthenticator, Db OpUpdateUser]\<rparr>)"
  by (simp add: verifyWebAuthnRegistration_def getUserChallenge_def addUserAuthenticator_def
      updateUser_def db_call_def Let_def sample_env_simps sample_verify_def sample_user_def
      empty_store_def)

lemma sample_verify_rejected:
  "verifyWebAuthnRegistration sample_env ''u1'' (JStr ''signed:c2'') None
     (empty_store\<lparr>users := [sample_user]\<rparr>) =
   (Inl (Error ''invalid-webauthn-verification''),
    empty_store\<lparr>users := [sample_user], trace := [Db OpGetUserChallenge]\<rparr>)"
  by (simp add: verifyWebAuthnRegistration_def getUserChallenge_def
      db_call_def Let_def sample_env_simps sample_verify_def sample_user_def
      empty_store_def)

theorem verifyWebAuthnRegistration_challenge_witness:
  "fst (verifyWebAuthnRegistration sample_env ''u1'' (JStr ''signed:c1'') None
          (empty_store\<lparr>users := [sample_user]\<rparr>)) = Inr () \<and>
   users (snd (verifyWebAuthnRegistration sample_env ''u1'' (JStr ''signed:c1'') None
          (empty_store\<lparr>users := [sample_user]\<rparr>))) =
     [sample_user\<lparr>u_currentChallenge := None\<rparr>] \<and>
   fst (verifyWebAuthnRegistration sample_env ''u1'' (JStr ''signed:c1'') None
          (snd (verifyWebAuthnRegistration sample_env ''u1'' (JStr ''signed:c1'') None
                  (empty_store\<lparr>users := [sample_user]\<rparr>)))) =
     Inl (Error ''invalid-request'') \<and>
   fst (verifyWebAuthnRegistration sample_env ''u1'' (JStr ''signed:c2'') None
          (empty_store\<lparr>users := [sample_user]\<rparr>)) =
     Inl (Error ''invalid-webauthn-verification'') \<and>
   users (snd (verifyWebAuthnRegistration sample_env ''u1'' (JStr ''signed:c2'') None
          (empty_store\<lparr>users := [sample_user]\<rparr>))) = [sample_user]"
proof -
  have a: "fst (verifyWebAuthnRegistration sample_env ''u1'' (JStr ''signed:c1'') None
          (empty_store\<lparr>users := [sample_user]\<rparr>)) = Inr ()"
    by (simp add: sample_verify_ok)
  have b: "fst (verifyWebAuthnRegistration sample_env ''u1'' (JStr ''signed:c2'') None
          (empty_store\<lparr>users := [sample_user]\<rparr>)) =
     Inl (Error ''invalid-webauthn-verification'')"
    by (simp add: sample_verify_rejected)
  note t = verifyWebAuthnRegistration_challenge
             [of sample_env "''u1''" "JStr ''signed:c1''" None
                 "empty_store\<lparr>users := [sample_user]\<rparr>",
              THEN conjunct1, rule_format, OF a]
  note f = verifyWebAuthnRegistration_challenge
             [of sample_env "''u1''" "JStr ''signed:c2''" None
                 "empty_store\<lparr>users := [sample_user]\<rparr>",
              THEN conjunct2, rule_format, OF b]
  from t have t1: "users (snd (verifyWebAuthnRegistration sample_env ''u1''
          (JStr ''signed:c1'') None (empty_store\<lparr>users := [sample_user]\<rparr>))) =
     [sample_user\<lparr>u_currentChallenge := None\<rparr>]"
    by (simp add: empty_store_def sample_user_def)
  from t have t2: "fst (verifyWebAuthnRegistration sample_env ''u1'' (JStr ''signed:c1'') None
          (snd (verifyWebAuthnRegistration sample_env ''u1'' (JStr ''signed:c1'') None
                  (empty_store\<lparr>users := [sample_user]\<rparr>)))) =
     Inl (Error ''invalid-request'')"
    by blast
  from f have f1: "users (snd (verifyWebAuthnRegistration sample_env ''u1''
          (JStr ''signed:c2'') None (empty_store\<lparr>users := [sample_user]\<rparr>))) = [sample_user]"
    by (simp add: empty_store_def)
  from a b t1 t2 f1 show ?thesis by blast
qed

text \<open>
  A failed verification does not clear the challenge: it is still \<open>c1\<close> afterwards. And the
  second submission after a success fails with \<open>invalid-request\<close>, not with
  \<open>invalid-webauthn-verification\<close>.
\<close>

theorem failed_verification_counterexample:
  "verifyWebAuthnRegistration sample_env ''u1'' (JStr ''signed:c2'') None
     (empty_store\<lparr>users := [sample_user]\<rparr>) =
   (Inl (Error ''invalid-webauthn-verification''),
    empty_store\<lparr>users := [sample_user], trace := [Db OpGetUserChallenge]\<rparr>) \<and>
   u_currentChallenge sample_user = Some ''c1'' \<and>
   fst (verifyWebAuthnRegistration sample_env ''u1'' (JStr ''signed:c1'') None
          (snd (verifyWebAuthnRegistration sample_env ''u1'' (JStr ''signed:c1'') None
                  (empty_store\<lparr>users := [sample_user]\<rparr>)))) =
     Inl (Error ''invalid-request'') \<and>
   Error ''invalid-request'' \<noteq> Error ''invalid-webauthn-verification''"
  by (simp add: sample_verify_rejected sample_verify_ok)
     (simp add: verifyWebAuthnRegistration_def getUserChallenge_def
      db_call_def Let_def sample_env_simps sample_user_def empty_store_def)

section \<open>Validation of the provider\<close>

lemma map_of_obj_set:
  "map_of (obj_set k v kvs) k' = (if k' = k then Some v else map_of kvs k')"
  by (induction kvs) auto

lemma grant_step_eq:
  "grant_step E p aggr =
     (if provider_enabled E p then
        (case map_of (PROVIDERS_CONFIG E) p of
           None \<Rightarrow> aggr
         | Some cfg \<Rightarrow> obj_set p (stored_grant E p cfg) aggr)
      else aggr)"
  by (simp add: grant_step_def provider_enabled_def stored_grant_def Let_def
      split: option.splits)

lemma stored_grant_credentials:
  "complete_credentials (stored_grant E p cfg) = complete_credentials (pc_grant cfg)"
  by (simp add: stored_grant_def Let_def complete_credentials_def)

lemma map_of_grant_step:
  "map_of (grant_step E p aggr) q =
     (if q = p \<and> provider_enabled E p then
        (case map_of (PROVIDERS_CONFIG E) p of
           None \<Rightarrow> map_of aggr q
         | Some cfg \<Rightarrow> Some (stored_grant E p cfg))
      else map_of aggr q)"
  by (simp add: grant_step_eq map_of_obj_set split: option.splits)

lemma foldl_grant_step:
  "map_of (foldl (\<lambda>aggr provider. grant_step E provider aggr) init ps) q =
     (if q \<in> set ps \<and> provider_enabled E q then
        (case map_of (PROVIDERS_CONFIG E) q of
           None \<Rightarrow> map_of init q
         | Some cfg \<Rightarrow> Some (stored_grant E q cfg))
      else map_of init q)"
proof (induction ps rule: rev_induct)
  case Nil
  then show ?case by simp
next
  case (snoc p ps)
  let ?prev = "foldl (\<lambda>aggr provider. grant_step E provider aggr) init ps"
  have step: "map_of (foldl (\<lambda>aggr provider. grant_step E provider aggr) init (ps @ [p])) q =
        map_of (grant_step E p ?prev) q"
    by simp
  show ?case
  proof (cases "q = p \<and> provider_enabled E p")
    case True
    then show ?thesis
      unfolding step map_of_grant_step snoc.IH
      by (cases "map_of (PROVIDERS_CONFIG E) p") simp_all
  next
    case False
    then have "map_of (grant_step E p ?prev) q = map_of ?prev q"
      by (auto simp: map_of_grant_step)
    with False show ?thesis
      unfolding step snoc.IH by auto
  qed
qed

lemma createGrantConfig_lookup:
  "map_of (createGrantConfig E) q =
     (case (if provider_enabled E q then map_of (PROVIDERS_CONFIG E) q else None) of
        Some cfg \<Rightarrow> Some (stored_grant E q cfg)
      | None \<Rightarrow> if q = ''defaults'' then Some (grant_defaults E) else None)"
proof -
  have "q \<notin> fst ` set (PROVIDERS_CONFIG E) \<Longrightarrow> map_of (PROVIDERS_CONFIG E) q = None"
    by (simp add: map_of_eq_None_iff)
  then show ?thesis
    unfolding createGrantConfig_def foldl_grant_step
    by (cases "map_of (PROVIDERS_CONFIG E) q") auto
qed

lemma grant_defaults_incomplete: "\<not> complete_credentials (grant_defaults E)"
  by (simp add: complete_credentials_def grant_defaults_def)

lemma validate_provider_cases:
  "validate_provider grantConfig provider redirectTo =
     (case obj_get grantConfig provider of
        Missing \<Rightarrow> Some (SendError ''disabled-endpoint'' redirectTo True)
      | Inherited \<Rightarrow> Some (SendError ''invalid-oauth-configuration'' redirectTo True)
      | Own g \<Rightarrow> if complete_credentials g then None
                  else Some (SendError ''invalid-oauth-configuration'' redirectTo True))"
  by (auto simp: validate_provider_def complete_credentials_def split: property.splits)

lemma obj_get_createGrantConfig:
  "obj_get (createGrantConfig E) q =
     (case (if provider_enabled E q then map_of (PROVIDERS_CONFIG E) q else None) of
        Some cfg \<Rightarrow> Own (stored_grant E q cfg)
      | None \<Rightarrow> if q = ''defaults'' then Own (grant_defaults E)
                else if q \<in> set object_prototype_keys then Inherited else Missing)"
  by (simp add: obj_get_def createGrantConfig_lookup split: option.splits)

text \<open>
  For every provider id other than \<open>defaults\<close> and the names of the members of
  \<open>Object.prototype\<close>: a provider that is not configured or not enabled is answered with
  \<open>disabled-endpoint\<close>, an enabled one without a complete credential pair with
  \<open>invalid-oauth-configuration\<close>; in both cases the chain stops there, the state is untouched
  and the request is not handed to Grant.
\<close>

lemma provider_validation:
  assumes "provider \<noteq> ''defaults''" and "provider \<notin> set object_prototype_keys"
  shows "(map_of (PROVIDERS_CONFIG E) provider = None \<or> \<not> provider_enabled E provider \<longrightarrow>
            signin_route E sid provider query st =
              (Answered (SendError ''disabled-endpoint'' (locals_redirectTo E query) True), st)) \<and>
         (\<forall>cfg. map_of (PROVIDERS_CONFIG E) provider = Some cfg \<and> provider_enabled E provider \<and>
                \<not> complete_credentials (pc_grant cfg) \<longrightarrow>
            signin_route E sid provider query st =
              (Answered (SendError ''invalid-oauth-configuration''
                           (locals_redirectTo E query) True), st))"
proof (intro conjI impI allI)
  assume "map_of (PROVIDERS_CONFIG E) provider = None \<or> \<not> provider_enabled E provider"
  with assms have "obj_get (createGrantConfig E) provider = Missing"
    by (auto simp: obj_get_createGrantConfig)
  then show "signin_route E sid provider query st =
              (Answered (SendError ''disabled-endpoint'' (locals_redirectTo E query) True), st)"
    by (simp add: signin_route_def validate_provider_cases locals_redirectTo_def)
next
  fix cfg
  assume h: "map_of (PROVIDERS_CONFIG E) provider = Some cfg \<and> provider_enabled E provider \<and>
                \<not> complete_credentials (pc_grant cfg)"
  then have "obj_get (createGrantConfig E) provider = Own (stored_grant E provider cfg)"
    by (simp add: obj_get_createGrantConfig)
  moreover from h have "\<not> complete_credentials (stored_grant E provider cfg)"
    by (simp add: stored_grant_credentials)
  ultimately show "signin_route E sid provider query st =
              (Answered (SendError ''invalid-oauth-configuration''
                           (locals_redirectTo E query) True), st)"
    by (simp add: signin_route_def validate_provider_cases locals_redirectTo_def)
qed

text \<open>The lemma at a provider that is not enabled and at one without a client secret.\<close>

lemma provider_validation_samples:
  "signin_route sample_env ''s1'' ''twitter''
     \<lparr> q_redirectTo = None, q_options = no_options \<rparr> empty_store =
   (Answered (SendError ''disabled-endpoint'' (Some ''http://localhost:3000'') True),
    empty_store) \<and>
   signin_route sample_env ''s1'' ''google''
     \<lparr> q_redirectTo = None, q_options = no_options \<rparr> empty_store =
   (Answered (SendError ''invalid-oauth-configuration'' (Some ''http://localhost:3000'') True),
    empty_store)"
proof -
  have t: "''twitter'' \<noteq> ''defaults''" and g: "''google'' \<noteq> ''defaults''"
    by simp_all
  have t': "''twitter'' \<notin> set object_prototype_keys"
    and g': "''google'' \<notin> set object_prototype_keys"
    by (simp_all add: object_prototype_keys_def)
  have nt: "\<not> provider_enabled sample_env ''twitter''"
    by (simp add: provider_enabled_def toUpperCase_def sample_env_def)
  have eg: "map_of (PROVIDERS_CONFIG sample_env) ''google'' =
              Some \<lparr> pc_grant = sample_grant (Some ''go-id'') None,
                     pc_profile = (\<lambda>_. Inr sample_profile) \<rparr> \<and>
            provider_enabled sample_env ''google'' \<and>
            \<not> complete_credentials (pc_grant \<lparr> pc_grant = sample_grant (Some ''go-id'') None,
                     pc_profile = (\<lambda>_. Inr sample_profile) \<rparr>)"
    by (simp add: provider_enabled_def toUpperCase_def sample_env_def sample_providers_def
        complete_credentials_def sample_grant_def)
  have r: "locals_redirectTo sample_env \<lparr> q_redirectTo = None, q_options = no_options \<rparr> =
             Some ''http://localhost:3000''"
    by (simp add: locals_redirectTo_def sample_env_def)
  from provider_validation [OF t t', THEN conjunct1, rule_format, OF disjI2, OF nt]
       provider_validation [OF g g', THEN conjunct2, rule_format, OF eg] r
  show ?thesis by simp
qed

text \<open>
  The remaining ids that name no provider yet pass the first test: \<open>defaults\<close> and the names
  of the members of \<open>Object.prototype\<close>. In every environment that configures no provider of
  such a name, the request is answered with \<open>invalid-oauth-configuration\<close>.
\<close>

lemma provider_validation_slips:
  assumes "provider = ''defaults'' \<or> provider \<in> set object_prototype_keys"
    and "map_of (PROVIDERS_CONFIG E) provider = None"
  shows "signin_route E sid provider query st =
           (Answered (SendError ''invalid-oauth-configuration''
                        (locals_redirectTo E query) True), st)"
proof -
  from assms have "obj_get (createGrantConfig E) provider = Own (grant_defaults E) \<or>
                   obj_get (createGrantConfig E) provider = Inherited"
    by (auto simp: obj_get_createGrantConfig)
  then show ?thesis
    by (auto simp: signin_route_def validate_provider_cases locals_redirectTo_def
        grant_defaults_incomplete)
qed

lemma signin_constructor_provider:
  "signin_route sample_env ''s1'' ''constructor''
     \<lparr> q_redirectTo = None, q_options = no_options \<rparr> empty_store =
   (Answered (SendError ''invalid-oauth-configuration'' (Some ''http://localhost:3000'') True),
    empty_store)"
proof -
  have "''constructor'' = ''defaults'' \<or> ''constructor'' \<in> set object_prototype_keys"
    by (simp add: object_prototype_keys_def)
  moreover have "map_of (PROVIDERS_CONFIG sample_env) ''constructor'' = None"
    by (simp add: sample_env_simps sample_providers_def)
  moreover have "locals_redirectTo sample_env \<lparr> q_redirectTo = None, q_options = no_options \<rparr> =
             Some ''http://localhost:3000''"
    by (simp add: locals_redirectTo_def sample_env_def)
  ultimately show ?thesis
    using provider_validation_slips
            [of "''constructor''" sample_env "''s1''"
                "\<lparr> q_redirectTo = None, q_options = no_options \<rparr>" empty_store]
    by simp
qed

text \<open>
  Claim C6 at the provider id \<open>defaults\<close>. The id names no provider, so the claim asks for
  \<open>disabled-endpoint\<close>; but the Grant configuration holds the key \<open>defaults\<close> beside the
  providers, the test \<open>!providerConfig\<close> does not fire, and the request is answered with
  \<open>invalid-oauth-configuration\<close>.
\<close>

theorem signin_defaults_provider:
  "map_of (PROVIDERS_CONFIG sample_env) ''defaults'' = None \<and>
   signin_route sample_env ''s1'' ''defaults''
     \<lparr> q_redirectTo = None, q_options = no_options \<rparr> empty_store =
   (Answered (SendError ''invalid-oauth-configuration'' (Some ''http://localhost:3000'') True),
    empty_store)"
proof -
  have a: "map_of (PROVIDERS_CONFIG sample_env) ''defaults'' = None"
    by (simp add: sample_env_simps sample_providers_def)
  then have "obj_get (createGrantConfig sample_env) ''defaults'' = Own (grant_defaults sample_env)"
    by (simp add: obj_get_createGrantConfig)
  then have "signin_route sample_env ''s1'' ''defaults''
     \<lparr> q_redirectTo = None, q_options = no_options \<rparr> empty_store =
   (Answered (SendError ''invalid-oauth-configuration'' (Some ''http://localhost:3000'') True),
    empty_store)"
    by (simp add: signin_route_def validate_provider_cases grant_defaults_incomplete
        sample_env_def)
  with a show ?thesis by simp
qed

section \<open>The callback and its session\<close>

lemma session_free_iff:
  "session_free st st' \<longleftrightarrow>
     sessions st' = sessions st \<and>
     (\<exists>xs. trace st' = trace st @ xs \<and> (\<forall>e \<in> set xs. \<not> is_session_event e))"
proof
  assume h: "session_free st st'"
  then have "trace st' = trace st @ new_events st st'"
    by (metis append_take_drop_id new_events_def session_free_def)
  with h show "sessions st' = sessions st \<and>
     (\<exists>xs. trace st' = trace st @ xs \<and> (\<forall>e \<in> set xs. \<not> is_session_event e))"
    by (auto simp: session_free_def list_all_iff)
next
  assume "sessions st' = sessions st \<and>
     (\<exists>xs. trace st' = trace st @ xs \<and> (\<forall>e \<in> set xs. \<not> is_session_event e))"
  then show "session_free st st'"
    by (auto simp: session_free_def new_events_def list_all_iff)
qed

lemma session_free_refl: "session_free st st"
  by (simp add: session_free_iff)

lemma session_free_trans:
  "session_free a b \<Longrightarrow> session_free b c \<Longrightarrow> session_free a c"
  by (auto simp: session_free_iff)

lemma db_call_session_free:
  assumes "\<And>s. session_free s (snd (f s))"
  shows "session_free st (snd (db_call E op f st))"
proof -
  have a: "session_free st (st\<lparr>trace := trace st @ [Db op]\<rparr>)"
    by (simp add: session_free_iff)
  show ?thesis
  proof (cases "db_raises E op")
    case None
    then have "snd (db_call E op f st) = snd (f (st\<lparr>trace := trace st @ [Db op]\<rparr>))"
      by (simp add: db_call_def Let_def split: prod.splits)
    with a assms show ?thesis
      by (metis session_free_trans)
  next
    case (Some m)
    with a show ?thesis by (simp add: db_call_def Let_def)
  qed
qed

lemma ops_session_free:
  "session_free st (snd (authUserProviders E p i st))"
  "session_free st (snd (updateAuthUserprovider E l at rt st))"
  "session_free st (snd (getUserByEmail E m st))"
  "session_free st (snd (insertUserProviderToUser E u p i at rt st))"
  "session_free st (snd (insertUser E ui p i at rt st))"
  "session_free st (snd (getNewRefreshToken E u st))"
  unfolding authUserProviders_def updateAuthUserprovider_def getUserByEmail_def
    insertUserProviderToUser_def insertUser_def getNewRefreshToken_def
  by (rule db_call_session_free, simp add: session_free_iff Let_def)+


lemma ops_session_freeD:
  "authUserProviders E p i st = (r1, st') \<Longrightarrow> session_free st st'"
  "updateAuthUserprovider E l at rt st = (r2, st') \<Longrightarrow> session_free st st'"
  "getUserByEmail E m st = (r3, st') \<Longrightarrow> session_free st st'"
  "insertUserProviderToUser E u p i at rt st = (r4, st') \<Longrightarrow> session_free st st'"
  "insertUser E ui p i at rt st = (r5, st') \<Longrightarrow> session_free st st'"
  "getNewRefreshToken E u st = (r6, st') \<Longrightarrow> session_free st st'"
  using ops_session_free [of st E] by (metis snd_conv)+

lemma create_new_user_session_free:
  "create_new_user E p i prof rt at opts st = (r, st') \<Longrightarrow> session_free st st'"
  by (auto simp: create_new_user_def session_free_refl split: sum.splits
      dest: ops_session_freeD)

lemma findOrCreateUser_session_free:
  assumes "findOrCreateUser E p prof rt at opts st = (r, st')"
  shows "session_free st st'"
proof (cases "truthy (p_id prof)")
  case False
  with assms show ?thesis
    by (simp add: findOrCreateUser_def session_free_refl)
next
  case True
  obtain r1 st1 where 1: "authUserProviders E p (case p_id prof of Some i \<Rightarrow> i | None \<Rightarrow> []) st
                            = (r1, st1)"
    by (cases "authUserProviders E p (case p_id prof of Some i \<Rightarrow> i | None \<Rightarrow> []) st")
  then have s1: "session_free st st1"
    by (rule ops_session_freeD)
  have "session_free st1 st'"
    using assms True 1
    by (auto simp: findOrCreateUser_def Let_def session_free_refl
        split: sum.splits list.splits prod.splits option.splits if_splits
        dest: ops_session_freeD create_new_user_session_free
        intro: session_free_trans)
  with s1 show ?thesis
    by (rule session_free_trans)
qed

lemma createUser_session_free:
  assumes "createUser E p rt at prof opts st = (r, st')"
  shows "session_free st st'"
  using assms
  by (auto simp: createUser_def session_free_refl
      split: sum.splits prod.splits option.splits
      dest: ops_session_freeD findOrCreateUser_session_free
      intro: session_free_trans)


lemma map_of_session_destroy: "map_of (session_destroy sid ss) sid = None"
  by (induction ss) (auto simp: session_destroy_def)

lemma callback_without_flow_state:
  "map_of (sessions st) sid = None \<Longrightarrow>
   fst (oauth_callback E sid query st) =
     sendErrorFromQuery query None (AUTH_CLIENT_URL E) (Some ''internal-error'') None"
  by (simp add: oauth_callback_def empty_session_def Let_def)

lemma callback_after_destroy:
  "session_free
     (st\<lparr>sessions := session_destroy sid (sessions st),
         trace := trace st @ [SessionRead sid, SessionDestroy sid, ClearCookie SESSION_NAME]\<rparr>)
     (snd (oauth_callback E sid query st))"
proof -
  let ?st2 = "st\<lparr>sessions := session_destroy sid (sessions st),
         trace := trace st @ [SessionRead sid, SessionDestroy sid, ClearCookie SESSION_NAME]\<rparr>"
  have a: "session_free ?st2 (?st2\<lparr>trace := trace ?st2 @ [ResRedirect]\<rparr>)"
    by (simp add: session_free_iff)
  have b: "session_free ?st2 (?st2\<lparr>trace := trace ?st2 @ [ProfileNormalised p]\<rparr>)" for p
    by (simp add: session_free_iff)
  have c: "session_free ?st2 (?st2\<lparr>trace := trace ?st2 @ [ProfileNormalised p, ResRedirect]\<rparr>)" for p
    by (simp add: session_free_iff)
  have d: "session_free ?st2 (s\<lparr>trace := trace s @ [ResRedirect]\<rparr>)"
    if "createUser E p rt at prof opts (?st2\<lparr>trace := trace ?st2 @ [ProfileNormalised p']\<rparr>)
          = (r, s)" for p rt at prof opts p' r s
  proof -
    from that have "session_free (?st2\<lparr>trace := trace ?st2 @ [ProfileNormalised p']\<rparr>) s"
      by (rule createUser_session_free)
    with b have "session_free ?st2 s"
      by (rule session_free_trans)
    moreover have "session_free s (s\<lparr>trace := trace s @ [ResRedirect]\<rparr>)"
      by (simp add: session_free_iff)
    ultimately show ?thesis
      by (rule session_free_trans)
  qed
  show ?thesis
    using a b c
    by (auto simp: oauth_callback_def Let_def
        split: option.splits sum.splits prod.splits error.splits intro: d)
qed

text \<open>
  Claim C2. On every path of the callback, whatever the session, the query and the
  environment: the first events are the read of the session, its destruction and the clearing
  of its cookie, in this order, and everything that follows (normalising the profile, the
  calls on the store, the answer) touches neither the session nor the cookie, so the session
  is read once. Afterwards the session id has no entry in the session store, and a second
  callback presenting the same session id finds no flow state: it is answered with the
  \<open>internal-error\<close> redirect to the client url, without a provider.
\<close>

theorem callback_destroys_session:
  "(\<exists>rest. trace (snd (oauth_callback E sid query st)) =
             trace st @ [SessionRead sid, SessionDestroy sid, ClearCookie SESSION_NAME] @ rest \<and>
           (\<forall>e \<in> set rest. \<not> is_session_event e)) \<and>
   map_of (sessions (snd (oauth_callback E sid query st))) sid = None \<and>
   fst (oauth_callback E sid query' (snd (oauth_callback E sid query st))) =
     sendErrorFromQuery query' None (AUTH_CLIENT_URL E) (Some ''internal-error'') None"
proof -
  note f = callback_after_destroy [of st sid E query, unfolded session_free_iff]
  from f have s: "sessions (snd (oauth_callback E sid query st)) =
                    session_destroy sid (sessions st)"
    by simp
  then have m: "map_of (sessions (snd (oauth_callback E sid query st))) sid = None"
    by (simp add: map_of_session_destroy)
  from f have "\<exists>rest. trace (snd (oauth_callback E sid query st)) =
             trace st @ [SessionRead sid, SessionDestroy sid, ClearCookie SESSION_NAME] @ rest \<and>
           (\<forall>e \<in> set rest. \<not> is_session_event e)"
    by simp
  with m callback_without_flow_state [OF m] show ?thesis
    by blast
qed

text \<open>The theorem at a session of the provider \<open>github\<close> whose flow succeeds.\<close>

lemma sample_callback_run:
  "oauth_callback sample_env ''sid1'' no_query
     (empty_store\<lparr>sessions := [(''sid1'', sample_session sample_grant_response)]\<rparr>) =
   (Redirect ''http://app.example/cb'' [(''refreshToken'', ''token'')],
    \<lparr> users = [\<lparr> u_id = ''id'', u_email = Some ''a@example.com'',
                   u_displayName = Some ''a@example.com'', u_avatarUrl = [],
                   u_locale = Some ''en'', u_defaultRole = ''user'',
                   u_roles = [''user'', ''me''], u_metadata = [],
                   u_emailVerified = False, u_passwordHash = None,
                   u_currentChallenge = None \<rparr>],
      user_providers = [\<lparr> up_id = ''id+'', up_userId = ''id'', up_providerId = ''github'',
                            up_providerUserId = ''42'', up_accessToken = Some ''at'',
                            up_refreshToken = Some ''rt'' \<rparr>],
      authenticators = [], refresh_tokens = [(''id'', ''token'')], sessions = [],
      next_id = 2,
      trace = [SessionRead ''sid1'', SessionDestroy ''sid1'', ClearCookie ''connect.sid'',
               ProfileNormalised ''github'', Db OpAuthUserProviders, Db OpGetUserByEmail,
               Db OpInsertUser, Db OpGetNewRefreshToken, ResRedirect] \<rparr>)"
  by (simp add: oauth_callback_def createUser_def findOrCreateUser_def create_new_user_def
      transformOauthProfile_def allowedRoles_of_def authUserProviders_def getUserByEmail_def
      insertUser_def getNewRefreshToken_def db_call_def normaliseProfile_def obj_get_def
      session_destroy_def SESSION_NAME_def js_or_def Let_def
      sample_env_simps sample_providers_def sample_profile_def sample_emailValidator_def
      sample_localeValidator_def sample_session_def sample_grant_response_def no_query_def
      no_options_def empty_store_def)

theorem callback_destroys_session_witness:
  "trace (snd (oauth_callback sample_env ''sid1'' no_query
     (empty_store\<lparr>sessions := [(''sid1'', sample_session sample_grant_response)]\<rparr>))) =
     [SessionRead ''sid1'', SessionDestroy ''sid1'', ClearCookie ''connect.sid'',
      ProfileNormalised ''github'', Db OpAuthUserProviders, Db OpGetUserByEmail,
      Db OpInsertUser, Db OpGetNewRefreshToken, ResRedirect] \<and>
   map_of (sessions (snd (oauth_callback sample_env ''sid1'' no_query
     (empty_store\<lparr>sessions := [(''sid1'', sample_session sample_grant_response)]\<rparr>)))) ''sid1''
     = None \<and>
   fst (oauth_callback sample_env ''sid1'' no_query
     (snd (oauth_callback sample_env ''sid1'' no_query
        (empty_store\<lparr>sessions := [(''sid1'', sample_session sample_grant_response)]\<rparr>)))) =
     Redirect ''http://localhost:3000''
       [(''error'', ''internal-error''), (''errorDescription'', ''Unknown error'')]"
proof -
  note t = callback_destroys_session
             [of sample_env "''sid1''" no_query
                 "empty_store\<lparr>sessions := [(''sid1'', sample_session sample_grant_response)]\<rparr>"
                 no_query]
  have r: "sendErrorFromQuery no_query None (AUTH_CLIENT_URL sample_env)
             (Some ''internal-error'') None =
           Redirect ''http://localhost:3000''
             [(''error'', ''internal-error''), (''errorDescription'', ''Unknown error'')]"
    by (simp add: sendErrorFromQuery_def no_query_def js_or_def sample_env_simps)
  from t r show ?thesis
    by (simp add: sample_callback_run)
qed

section \<open>Missing tokens in the callback\<close>

text \<open>
  Claim C4, as the code has it. In the callback, when the flow state names a provider and
  holds a response that lacks the access token or the refresh token, the answer depends on
  the two steps that precede the test for the tokens.
  When the response has no profile either, the answer is a redirect whose \<open>error\<close> is
  \<open>internal-error\<close>, whatever the query says, and whose \<open>errorDescription\<close> is the query's
  \<open>error_description\<close> when it is a string, else the query's \<open>error\<close> when it is a string
  other than \<open>internal-error\<close>, else the response's \<open>error\<close> when it is not empty, else
  \<open>Unknown error\<close>.
  When the response has a profile and the provider's normaliser throws, the handler's promise
  rejects and no redirect is sent.
  Otherwise the answer is a redirect whose \<open>error\<close> is the query's \<open>error\<close> when it is a
  string, else \<open>invalid-request\<close>, and whose \<open>errorDescription\<close> is the query's
  \<open>error_description\<close> when it is a string, else the text
  \<open>Grant did not get an accessToken and refreshToken\<close>.
  Every such redirect goes to the flow's redirect url and carries the provider's name.
\<close>

theorem missing_tokens_redirect:
  assumes "map_of (sessions st) sid = Some sess"
    and "s_grant sess = Some g"
    and "g_provider g = Some provider" and "provider \<noteq> []"
    and "g_response g = Some resp"
    and "\<not> truthy (r_access_token resp) \<or> \<not> truthy (r_refresh_token resp)"
  shows "fst (oauth_callback E sid query st) =
     (if \<not> (case r_profile resp of Some raw \<Rightarrow> json_truthy raw | None \<Rightarrow> False)
      then Redirect (callback_redirectTo E sid st)
             [(''error'', ''internal-error''),
              (''errorDescription'',
                 (case q_error_description query of
                    Some (QString d) \<Rightarrow> d
                  | _ \<Rightarrow>
                     (case q_error query of
                        Some (QString e) \<Rightarrow>
                          if e \<noteq> ''internal-error'' then e
                          else if truthy (r_error resp)
                               then (case r_error resp of Some m \<Rightarrow> m | None \<Rightarrow> [])
                               else ''Unknown error''
                      | _ \<Rightarrow> if truthy (r_error resp)
                             then (case r_error resp of Some m \<Rightarrow> m | None \<Rightarrow> [])
                             else ''Unknown error''))),
              (''provider'', provider)]
      else
        (case normaliseProfile E provider resp of
           Inl e \<Rightarrow> Rejected e
         | Inr profile \<Rightarrow>
             Redirect (callback_redirectTo E sid st)
               [(''error'', (case q_error query of
                               Some (QString e) \<Rightarrow> e
                             | _ \<Rightarrow> ''invalid-request'')),
                (''errorDescription'', (case q_error_description query of
                               Some (QString d) \<Rightarrow> d
                             | _ \<Rightarrow> ''Grant did not get an accessToken and refreshToken'')),
                (''provider'', provider)]))"
proof (cases "case r_profile resp of Some raw \<Rightarrow> json_truthy raw | None \<Rightarrow> False")
  case False
  with assms show ?thesis
    by (auto simp: oauth_callback_def sendErrorFromQuery_def callback_redirectTo_def js_or_def
        Let_def split: option.splits query_value.splits)
next
  case True
  show ?thesis
  proof (cases "normaliseProfile E provider resp")
    case (Inl e)
    with True assms show ?thesis
      by (auto simp: oauth_callback_def Let_def split: option.splits)
  next
    case (Inr profile)
    with True assms show ?thesis
      by (auto simp: oauth_callback_def sendErrorFromQuery_def callback_redirectTo_def js_or_def
          Let_def split: option.splits query_value.splits)
  qed
qed

text \<open>
  The theorem at three sessions without refresh token: one with a profile and a query that
  carries an error, one without profile, and one whose normaliser throws.
\<close>

lemma sample_session_facts:
  "map_of (sessions (empty_store\<lparr>sessions := [(''sid1'', sample_session resp)]\<rparr>)) ''sid1'' =
     Some (sample_session resp)"
  "s_grant (sample_session resp) =
     Some \<lparr> g_provider = Some ''github'', g_response = Some resp \<rparr>"
  "g_provider \<lparr> g_provider = Some ''github'', g_response = Some resp \<rparr> = Some ''github''"
  "''github'' \<noteq> []"
  "g_response \<lparr> g_provider = Some ''github'', g_response = Some resp \<rparr> = Some resp"
  "callback_redirectTo E ''sid1'' (empty_store\<lparr>sessions := [(''sid1'', sample_session resp)]\<rparr>)
     = ''http://app.example/cb''"
  by (simp_all add: empty_store_def sample_session_def callback_redirectTo_def)

theorem missing_tokens_redirect_witness:
  "\<not> truthy (r_refresh_token (sample_grant_response\<lparr>r_refresh_token := None\<rparr>)) \<and>
   normaliseProfile sample_env ''github'' (sample_grant_response\<lparr>r_refresh_token := None\<rparr>)
     = Inr sample_profile \<and>
   fst (oauth_callback sample_env ''sid1''
          \<lparr> q_error = Some (QString ''access_denied''),
            q_error_description = Some (QString ''The user denied the request'') \<rparr>
          (empty_store\<lparr>sessions :=
            [(''sid1'', sample_session (sample_grant_response\<lparr>r_refresh_token := None\<rparr>))]\<rparr>)) =
     Redirect ''http://app.example/cb''
       [(''error'', ''access_denied''),
        (''errorDescription'', ''The user denied the request''),
        (''provider'', ''github'')] \<and>
   fst (oauth_callback sample_env ''sid1''
          \<lparr> q_error = Some (QString ''access_denied''), q_error_description = None \<rparr>
          (empty_store\<lparr>sessions :=
            [(''sid1'', sample_session (sample_grant_response\<lparr>r_profile := None,
                                           r_refresh_token := None\<rparr>))]\<rparr>)) =
     Redirect ''http://app.example/cb''
       [(''error'', ''internal-error''),
        (''errorDescription'', ''access_denied''),
        (''provider'', ''github'')] \<and>
   fst (oauth_callback throwing_env ''sid1'' no_query
          (empty_store\<lparr>sessions :=
            [(''sid1'', sample_session (sample_grant_response\<lparr>r_refresh_token := None\<rparr>))]\<rparr>)) =
     Rejected (Error ''no email in the profile'')"
proof -
  let ?resp = "sample_grant_response\<lparr>r_refresh_token := None\<rparr>"
  let ?bare = "sample_grant_response\<lparr>r_profile := None, r_refresh_token := None\<rparr>"
  have 1: "\<not> truthy (r_access_token ?resp) \<or> \<not> truthy (r_refresh_token ?resp)"
    and 2: "\<not> truthy (r_access_token ?bare) \<or> \<not> truthy (r_refresh_token ?bare)"
    by simp_all
  have 3: "normaliseProfile sample_env ''github'' ?resp = Inr sample_profile"
    by (simp add: normaliseProfile_def obj_get_def sample_env_simps sample_providers_def)
  have 4: "normaliseProfile throwing_env ''github'' ?resp = Inl (Error ''no email in the profile'')"
    by (simp add: normaliseProfile_def obj_get_def throwing_env_def)
  have 5: "(case r_profile ?resp of Some raw \<Rightarrow> json_truthy raw | None \<Rightarrow> False)"
    and 6: "\<not> (case r_profile ?bare of Some raw \<Rightarrow> json_truthy raw | None \<Rightarrow> False)"
    and 7: "r_error ?bare = None"
    by (simp_all add: sample_grant_response_def)
  note a = missing_tokens_redirect
             [OF sample_session_facts(1-5) 1, of sample_env
                "\<lparr> q_error = Some (QString ''access_denied''),
                   q_error_description = Some (QString ''The user denied the request'') \<rparr>"]
  note b = missing_tokens_redirect
             [OF sample_session_facts(1-5) 2, of sample_env
                "\<lparr> q_error = Some (QString ''access_denied''), q_error_description = None \<rparr>"]
  note c = missing_tokens_redirect [OF sample_session_facts(1-5) 1, of throwing_env no_query]
  have a': "fst (oauth_callback sample_env ''sid1''
          \<lparr> q_error = Some (QString ''access_denied''),
            q_error_description = Some (QString ''The user denied the request'') \<rparr>
          (empty_store\<lparr>sessions := [(''sid1'', sample_session ?resp)]\<rparr>)) =
     Redirect ''http://app.example/cb''
       [(''error'', ''access_denied''),
        (''errorDescription'', ''The user denied the request''),
        (''provider'', ''github'')]"
    unfolding a using 3 5 by (simp add: sample_session_facts(6))
  have b': "fst (oauth_callback sample_env ''sid1''
          \<lparr> q_error = Some (QString ''access_denied''), q_error_description = None \<rparr>
          (empty_store\<lparr>sessions := [(''sid1'', sample_session ?bare)]\<rparr>)) =
     Redirect ''http://app.example/cb''
       [(''error'', ''internal-error''),
        (''errorDescription'', ''access_denied''),
        (''provider'', ''github'')]"
    unfolding b using 6 7 by (simp add: sample_session_facts(6))
  have c': "fst (oauth_callback throwing_env ''sid1'' no_query
          (empty_store\<lparr>sessions := [(''sid1'', sample_session ?resp)]\<rparr>)) =
     Rejected (Error ''no email in the profile'')"
    unfolding c using 4 5 by simp
  from 3 a' b' c' show ?thesis by simp
qed

text \<open>
  Without an \<open>error\<close> in the query, the code reported for missing tokens is
  \<open>invalid-request\<close>, not \<open>internal-error\<close>.
\<close>

theorem missing_tokens_counterexample:
  "fst (oauth_callback sample_env ''sid1'' no_query
          (empty_store\<lparr>sessions :=
            [(''sid1'', sample_session (sample_grant_response\<lparr>r_refresh_token := None\<rparr>))]\<rparr>)) =
     Redirect ''http://app.example/cb''
       [(''error'', ''invalid-request''),
        (''errorDescription'', ''Grant did not get an accessToken and refreshToken''),
        (''provider'', ''github'')] \<and>
   ''invalid-request'' \<noteq> ''internal-error''"
  by (simp add: oauth_callback_def sendErrorFromQuery_def normaliseProfile_def obj_get_def
      js_or_def Let_def
      sample_env_simps sample_providers_def sample_session_def sample_grant_response_def
      no_query_def empty_store_def)

end
